theory Spec2Isabelle
  imports Complex_Main "HOL-Library.AList" "HOL-Library.Word"
begin

section \<open>JavaScript values\<close>

text \<open>
  A property of a JavaScript object is missing, present with the value \<open>undefined\<close>, or
  present with a value. Reading \<open>o.k\<close> does not tell the first two apart; the object
  spread \<open>{...a, ...b}\<close> does: a key of \<open>b\<close> wins even when its value is
  \<open>undefined\<close>.
\<close>

datatype 'a field = Missing | Undefined | Def 'a

fun get_field :: "'a field \<Rightarrow> 'a option" where
  "get_field Missing = None"
| "get_field Undefined = None"
| "get_field (Def v) = Some v"

fun spread_field :: "'a field \<Rightarrow> 'a field \<Rightarrow> 'a field" where
  "spread_field a Missing = a"
| "spread_field a b = b"

text \<open>
  An object literal with string keys is an association list in insertion order; the
  spread \<open>{...a, ...b}\<close> assigns the entries of \<open>b\<close> one by one: a key of \<open>a\<close>
  keeps its place and takes the new value, a new key goes to the end.
\<close>

definition obj_spread :: "('k \<times> 'v) list \<Rightarrow> ('k \<times> 'v) list \<Rightarrow> ('k \<times> 'v) list" where
  "obj_spread a b = fold (\<lambda>(k, v). AList.update k v) b a"

text \<open>
  Strings are lists of UTF-16 code units; the model covers the strings whose code units
  are below 256, one \<^typ>\<open>char\<close> each. \<open>s.length\<close> counts code units. The
  UTF-8 encoding, which Node writes on the wire and \<open>Buffer.byteLength\<close> counts, takes
  one byte for a code unit below 128 and two for the others of this range.
\<close>

definition utf8_length :: "string \<Rightarrow> nat" where
  "utf8_length s = sum_list (map (\<lambda>c. if (of_char c :: nat) < 128 then 1 else 2) s)"

text \<open>
  \<open>toLowerCase\<close> and \<open>toUpperCase\<close> on the ASCII letters; the model applies them to
  HTTP method names only.
\<close>

definition lower_char :: "char \<Rightarrow> char" where
  "lower_char c =
     (case map_of (zip ''ABCDEFGHIJKLMNOPQRSTUVWXYZ'' ''abcdefghijklmnopqrstuvwxyz'') c of
        Some d \<Rightarrow> d
      | None \<Rightarrow> c)"

definition upper_char :: "char \<Rightarrow> char" where
  "upper_char c =
     (case map_of (zip ''abcdefghijklmnopqrstuvwxyz'' ''ABCDEFGHIJKLMNOPQRSTUVWXYZ'') c of
        Some d \<Rightarrow> d
      | None \<Rightarrow> c)"

definition toLowerCase :: "string \<Rightarrow> string" where
  "toLowerCase s = map lower_char s"

definition toUpperCase :: "string \<Rightarrow> string" where
  "toUpperCase s = map upper_char s"

definition startsWith :: "string \<Rightarrow> string \<Rightarrow> bool" where
  "startsWith s p = (take (length p) s = p)"

text \<open>
  Numbers: the finite values (kept exact, as rationals), the two infinities and NaN.
\<close>

datatype jsnum = Fin rat | PosInf | NegInf | NaN

fun math_floor :: "jsnum \<Rightarrow> jsnum" where
  "math_floor (Fin r) = Fin (of_int \<lfloor>r\<rfloor>)"
| "math_floor x = x"

fun math_max :: "jsnum \<Rightarrow> jsnum \<Rightarrow> jsnum" where
  "math_max NaN y = NaN"
| "math_max x NaN = NaN"
| "math_max PosInf y = PosInf"
| "math_max x PosInf = PosInf"
| "math_max NegInf y = y"
| "math_max x NegInf = x"
| "math_max (Fin a) (Fin b) = Fin (max a b)"

fun num_gt :: "jsnum \<Rightarrow> rat \<Rightarrow> bool" where
  "num_gt (Fin a) b = (a > b)"
| "num_gt PosInf b = True"
| "num_gt NegInf b = False"
| "num_gt NaN b = False"

fun num_sub :: "jsnum \<Rightarrow> rat \<Rightarrow> jsnum" where
  "num_sub (Fin a) b = Fin (a - b)"
| "num_sub x b = x"

text \<open>
  The values of the fields typed \<open>any\<close> (\<open>body\<close>, \<open>form\<close>, \<open>formData\<close> and the
  entries of \<open>qs\<close> and \<open>query\<close>). A \<open>Readable\<close> stream carries its
  \<open>_readableState.objectMode\<close> flag; \<open>AOther\<close> stands for the values with no JSON
  text (functions, symbols).
\<close>

type_synonym bytes = "8 word list"

datatype jsany =
    ANull
  | ABool bool
  | ANum jsnum
  | AStr string
  | ABuffer bytes
  | AReadable bool
  | AObject "(string \<times> jsany) list"
  | AOther nat

fun truthy :: "jsany \<Rightarrow> bool" where
  "truthy ANull = False"
| "truthy (ABool b) = b"
| "truthy (ANum (Fin r)) = (r \<noteq> 0)"
| "truthy (ANum NaN) = False"
| "truthy (ANum x) = True"
| "truthy (AStr s) = (s \<noteq> [])"
| "truthy x = True"

definition truthy_opt :: "jsany option \<Rightarrow> bool" where
  "truthy_opt v = (case v of None \<Rightarrow> False | Some x \<Rightarrow> truthy x)"

definition truthy_str :: "string option \<Rightarrow> bool" where
  "truthy_str v = (case v of None \<Rightarrow> False | Some s \<Rightarrow> s \<noteq> [])"

datatype error = Error string | TypeError string

section \<open>URLs, headers and the options of a call (options.ts)\<close>

text \<open>
  The parts of a WHATWG \<open>URL\<close> object that the client reads. \<open>host\<close> and
  \<open>origin\<close> are derived as the URL standard derives them.
\<close>

record url =
  protocol :: string
  hostname :: string
  port :: string
  pathname :: string
  search :: string

definition host :: "url \<Rightarrow> string" where
  "host u = (if port u = [] then hostname u else hostname u @ '':'' @ port u)"

definition origin :: "url \<Rightarrow> string" where
  "origin u =
     (if protocol u \<in> set [''http:'', ''https:'', ''ftp:'', ''ws:'', ''wss:'']
      then protocol u @ ''//'' @ host u else ''null'')"

datatype hval = HStr string | HList "string list" | HNum nat

type_synonym headers = "(string \<times> hval) list"

fun truthy_hval :: "hval option \<Rightarrow> bool" where
  "truthy_hval None = False"
| "truthy_hval (Some (HStr s)) = (s \<noteq> [])"
| "truthy_hval (Some (HNum n)) = (n \<noteq> 0)"
| "truthy_hval (Some (HList l)) = True"

text \<open>
  \<open>tls.ConnectionOptions\<close> shares the keys \<open>host\<close>, \<open>port\<close> and \<open>path\<close>
  with the options of \<open>http.request\<close>, into which the client spreads it; the other
  keys (certificates, ciphers, ...) are kept as they are.
\<close>

record tls_options =
  tls_host :: "string field"
  tls_port :: "string field"
  tls_path :: "string field"
  tls_other :: "(string \<times> string) list"

datatype agent = AgentObject nat | AgentBool bool

datatype uri_arg = UriString string | UriObject url

record proxy_object =
  po_uri :: uri_arg
  po_tls :: "tls_options option"
  po_username :: "string option"
  po_password :: "string option"

datatype proxy_arg = ProxyString string | ProxyURL url | ProxyObject proxy_object

record auth_pair =
  auth_username :: string
  auth_password :: string

text \<open>The type \<open>Options\<close>: every key is optional.\<close>

record Options =
  o_method :: "string field"
  o_headers :: "headers field"
  o_uri :: "uri_arg field"
  o_proxy :: "proxy_arg field"
  o_maxRedirects :: "jsnum field"
  o_followAllRedirects :: "bool field"
  o_auth :: "auth_pair field"
  o_body :: "jsany field"
  o_form :: "jsany field"
  o_formData :: "jsany field"
  o_qs :: "(string \<times> jsany) list field"
  o_query :: "(string \<times> jsany) list field"
  o_decompress :: "bool field"
  o_rejectError :: "bool field"
  o_raw :: "bool field"
  o_tls :: "tls_options field"
  o_simple :: "bool field"
  o_path :: "string field"
  o_agent :: "agent field"

definition no_options :: Options where
  "no_options = \<lparr> o_method = Missing, o_headers = Missing, o_uri = Missing,
     o_proxy = Missing, o_maxRedirects = Missing, o_followAllRedirects = Missing,
     o_auth = Missing, o_body = Missing, o_form = Missing, o_formData = Missing,
     o_qs = Missing, o_query = Missing, o_decompress = Missing, o_rejectError = Missing,
     o_raw = Missing, o_tls = Missing, o_simple = Missing, o_path = Missing,
     o_agent = Missing \<rparr>"

text \<open>The spread \<open>{...a, ...b}\<close> of two option objects.\<close>

definition spread :: "Options \<Rightarrow> Options \<Rightarrow> Options" where
  "spread a b = \<lparr>
     o_method = spread_field (o_method a) (o_method b),
     o_headers = spread_field (o_headers a) (o_headers b),
     o_uri = spread_field (o_uri a) (o_uri b),
     o_proxy = spread_field (o_proxy a) (o_proxy b),
     o_maxRedirects = spread_field (o_maxRedirects a) (o_maxRedirects b),
     o_followAllRedirects = spread_field (o_followAllRedirects a) (o_followAllRedirects b),
     o_auth = spread_field (o_auth a) (o_auth b),
     o_body = spread_field (o_body a) (o_body b),
     o_form = spread_field (o_form a) (o_form b),
     o_formData = spread_field (o_formData a) (o_formData b),
     o_qs = spread_field (o_qs a) (o_qs b),
     o_query = spread_field (o_query a) (o_query b),
     o_decompress = spread_field (o_decompress a) (o_decompress b),
     o_rejectError = spread_field (o_rejectError a) (o_rejectError b),
     o_raw = spread_field (o_raw a) (o_raw b),
     o_tls = spread_field (o_tls a) (o_tls b),
     o_simple = spread_field (o_simple a) (o_simple b),
     o_path = spread_field (o_path a) (o_path b),
     o_agent = spread_field (o_agent a) (o_agent b) \<rparr>"

text \<open>
  \<open>{...opts}\<close> for an optional argument: spreading \<open>undefined\<close> adds nothing.
\<close>

definition spread_opt :: "Options option \<Rightarrow> Options" where
  "spread_opt opts = (case opts of None \<Rightarrow> no_options | Some b \<Rightarrow> spread no_options b)"

text \<open>
  The type \<open>RequestOptions\<close>: the descriptor that \<open>sanitizeOpts\<close> returns. Its
  field \<open>method\<close> is \<open>method_name\<close> here.
\<close>

record proxy_descriptor =
  px_uri :: url
  px_tls :: "tls_options option"
  px_username :: "string option"
  px_password :: "string option"

record RequestOptions =
  method_name :: string
  headers :: headers
  uri :: url
  proxy :: "proxy_descriptor option"
  maxRedirects :: jsnum
  auth :: "auth_pair option"
  body :: "jsany option"
  form :: "jsany option"
  formData :: "jsany option"
  qs :: "(string \<times> jsany) list option"
  query :: "(string \<times> jsany) list option"
  decompress :: bool
  rejectError :: bool
  raw :: bool
  tls :: "tls_options option"
  simple :: bool
  path :: "string option"
  agent :: "agent option"

text \<open>
  What the client takes from its libraries and its platform: the URL parser
  (\<open>new URL(s)\<close>, \<open>None\<close> when it throws) with the setters of \<open>pathname\<close> and
  \<open>search\<close> and the entries of \<open>searchParams\<close>, the two query-string encoders,
  \<open>JSON.stringify\<close> (which throws, returns \<open>undefined\<close> or returns a text),
  \<open>Object.entries\<close>, the boundary of a new \<open>FormData\<close>, base64 of the UTF-8 bytes
  of a string, and the default \<open>User-Agent\<close>.
\<close>

record env =
  parse_url :: "string \<Rightarrow> url option"
  set_pathname :: "url \<Rightarrow> string \<Rightarrow> url"
  set_search :: "url \<Rightarrow> string \<Rightarrow> url"
  searchParams :: "url \<Rightarrow> (string \<times> string) list"
  qs_stringify :: "jsany \<Rightarrow> string"
  querystring_stringify :: "jsany \<Rightarrow> string"
  json_stringify :: "jsany \<Rightarrow> error + string option"
  object_entries :: "jsany \<Rightarrow> (string \<times> jsany) list"
  form_boundary :: string
  base64 :: "string \<Rightarrow> string"
  defaultUserAgent :: string

definition getMaxRedirects :: "Options \<Rightarrow> jsnum" where
  "getMaxRedirects opts =
     (case get_field (o_maxRedirects opts) of
        Some n \<Rightarrow> math_max (math_floor n) (Fin 0)
      | None \<Rightarrow>
          if get_field (o_followAllRedirects opts) = Some True then PosInf else Fin 0)"

definition uriToURL :: "env \<Rightarrow> uri_arg \<Rightarrow> error + url" where
  "uriToURL e u =
     (case u of
        UriString s \<Rightarrow>
          (case parse_url e s of None \<Rightarrow> Inl (TypeError ''Invalid URL'') | Some v \<Rightarrow> Inr v)
      | UriObject v \<Rightarrow> Inr v)"

definition sanitize_proxy :: "env \<Rightarrow> proxy_arg option \<Rightarrow> error + proxy_descriptor option" where
  "sanitize_proxy e p =
     (case p of
        None \<Rightarrow> Inr None
      | Some (ProxyString s) \<Rightarrow>
          (case uriToURL e (UriString s) of
             Inl err \<Rightarrow> Inl err
           | Inr v \<Rightarrow> Inr (Some \<lparr> px_uri = v, px_tls = None, px_username = None,
                                  px_password = None \<rparr>))
      | Some (ProxyURL v) \<Rightarrow>
          Inr (Some \<lparr> px_uri = v, px_tls = None, px_username = None, px_password = None \<rparr>)
      | Some (ProxyObject po) \<Rightarrow>
          (case uriToURL e (po_uri po) of
             Inl err \<Rightarrow> Inl err
           | Inr v \<Rightarrow> Inr (Some \<lparr> px_uri = v, px_tls = po_tls po,
                                  px_username = po_username po,
                                  px_password = po_password po \<rparr>)))"

text \<open>
  \<open>sanitizeOpts\<close> on an options object. The object literal it returns has no
  \<open>agent\<close> key, so reading \<open>agent\<close> from the descriptor gives \<open>undefined\<close>.
\<close>

definition sanitize_object :: "env \<Rightarrow> Options \<Rightarrow> error + RequestOptions" where
  "sanitize_object e opts =
     (case get_field (o_uri opts) of
        None \<Rightarrow> Inl (Error ''begger: uri must be defined'')
      | Some u \<Rightarrow>
          (case uriToURL e u of
             Inl err \<Rightarrow> Inl err
           | Inr target \<Rightarrow>
               (case sanitize_proxy e (get_field (o_proxy opts)) of
                  Inl err \<Rightarrow> Inl err
                | Inr px \<Rightarrow> Inr \<lparr>
                    method_name = (if truthy_str (get_field (o_method opts))
                              then the (get_field (o_method opts)) else ''GET''),
                    headers = (case get_field (o_headers opts) of Some h \<Rightarrow> h | None \<Rightarrow> []),
                    uri = target,
                    proxy = px,
                    maxRedirects = getMaxRedirects opts,
                    auth = get_field (o_auth opts),
                    body = get_field (o_body opts),
                    form = get_field (o_form opts),
                    formData = get_field (o_formData opts),
                    qs = get_field (o_qs opts),
                    query = get_field (o_query opts),
                    decompress = (get_field (o_decompress opts) \<noteq> Some False),
                    rejectError = (get_field (o_rejectError opts) = Some True),
                    raw = (get_field (o_raw opts) = Some True),
                    tls = get_field (o_tls opts),
                    simple = (get_field (o_simple opts) = Some True),
                    path = get_field (o_path opts),
                    agent = None \<rparr>)))"

definition sanitizeOpts :: "env \<Rightarrow> string + Options \<Rightarrow> error + RequestOptions" where
  "sanitizeOpts e opts =
     (case opts of
        Inl s \<Rightarrow> sanitize_object e (no_options \<lparr> o_uri := Def (UriString s) \<rparr>)
      | Inr ob \<Rightarrow> sanitize_object e ob)"

section \<open>The client (request.ts)\<close>

subsection \<open>What the client does to the outside\<close>

text \<open>
  A call of \<open>http.request\<close> or \<open>https.request\<close>, with the options the client
  passes. \<open>target\<close> is the URL given as first argument (the CONNECT request has
  none); \<open>r_socket\<close> is the \<open>createConnection\<close> callback of a request sent through
  a tunnel.
\<close>

datatype transport = Http | Https

datatype socket_source =
    OwnSocket
  | TunnelSocket
  | TlsOnTunnel "tls_options option" string

record client_request =
  via :: transport
  target :: "url option"
  r_method :: string
  r_headers :: headers
  r_auth :: "string option"
  r_agent :: "agent option"
  r_host :: "string option"
  r_port :: "string option"
  r_path :: "string option"
  r_tls :: "(string \<times> string) list"
  r_socket :: socket_source

text \<open>The calls of the body encoder on the connection.\<close>

datatype pipe_source =
    BodyStream jsany
  | FormStream "(string \<times> jsany \<times> string) list"

datatype conn_call =
    SetHeader string hval
  | End "jsany option"
  | Pipe pipe_source

text \<open>
  A connection keeps the descriptor it was made for and what it waits for: the response
  of its own request, or the tunnel of a proxy, after which the target request goes
  through the library chosen beforehand.
\<close>

datatype link = Direct | Tunnel transport

record connection =
  conn_options :: RequestOptions
  conn_link :: link
  calls :: "conn_call list"

text \<open>
  The world: the transport requests opened so far, and the connections handed out so
  far, each in order.
\<close>

record world =
  requests :: "client_request list"
  connections :: "connection list"

subsection \<open>Opening a connection\<close>

definition httpLib :: "string \<Rightarrow> error + transport" where
  "httpLib p =
     (if p = ''http:'' then Inr Http
      else if p = ''https:'' then Inr Https
      else Inl (Error ''protocol not supported''))"

text \<open>A key spread over an object literal that may already hold it.\<close>

fun override :: "'a option \<Rightarrow> 'a field \<Rightarrow> 'a option" where
  "override a Missing = a"
| "override a Undefined = None"
| "override a (Def v) = Some v"

definition spread_tls :: "client_request \<Rightarrow> tls_options option \<Rightarrow> client_request" where
  "spread_tls r t =
     (case t of
        None \<Rightarrow> r
      | Some extra \<Rightarrow>
          r \<lparr> r_host := override (r_host r) (tls_host extra),
              r_port := override (r_port r) (tls_port extra),
              r_path := override (r_path r) (tls_path extra),
              r_tls := obj_spread (r_tls r) (tls_other extra) \<rparr>)"

definition request_method :: "RequestOptions \<Rightarrow> string" where
  "request_method options =
     (if method_name options \<noteq> [] then toUpperCase (method_name options)
      else method_name options)"

definition request_auth :: "RequestOptions \<Rightarrow> string option" where
  "request_auth options =
     (case auth options of
        None \<Rightarrow> None
      | Some a \<Rightarrow> Some (auth_username a @ '':'' @ auth_password a))"

definition proxyAuth :: "env \<Rightarrow> proxy_descriptor \<Rightarrow> string option" where
  "proxyAuth e px =
     (if truthy_str (px_username px)
      then (if truthy_str (px_password px)
            then Some (''Basic '' @ base64 e (the (px_username px) @ '':'' @ the (px_password px)))
            else px_password px)
      else px_username px)"

definition proxyPath :: "transport \<Rightarrow> RequestOptions \<Rightarrow> string" where
  "proxyPath targetHttpLib options =
     hostname (uri options) @ '':'' @
       (if port (uri options) \<noteq> [] then port (uri options)
        else if targetHttpLib = Http then ''80'' else ''443'')"

definition connect_request :: "env \<Rightarrow> transport \<Rightarrow> transport \<Rightarrow> proxy_descriptor \<Rightarrow> RequestOptions \<Rightarrow> client_request" where
  "connect_request e proxyHttpLib targetHttpLib px options =
     spread_tls
       \<lparr> via = proxyHttpLib,
         target = None,
         r_method = ''CONNECT'',
         r_headers =
           [(''host'', HStr (host (uri options))),
            (''User-Agent'',
               (if truthy_hval (map_of (headers options) ''user-agent'')
                then the (map_of (headers options) ''user-agent'')
                else HStr (defaultUserAgent e)))]
           @ (if truthy_str (proxyAuth e px)
              then [(''Proxy-Authorization'', HStr (the (proxyAuth e px)))] else []),
         r_auth = None,
         r_agent = Some (AgentBool False),
         r_host = Some (hostname (px_uri px)),
         r_port = Some (port (px_uri px)),
         r_path = Some (proxyPath targetHttpLib options),
         r_tls = [],
         r_socket = OwnSocket \<rparr>
       (px_tls px)"

text \<open>The target request that the \<open>connect\<close> handler sends through the tunnel.\<close>

definition tunnel_request :: "env \<Rightarrow> transport \<Rightarrow> RequestOptions \<Rightarrow> client_request" where
  "tunnel_request e targetHttpLib options =
     \<lparr> via = targetHttpLib,
       target = Some (uri options),
       r_method = request_method options,
       r_headers = obj_spread [(''User-Agent'', HStr (defaultUserAgent e))] (headers options),
       r_auth = request_auth options,
       r_agent = None,
       r_host = None,
       r_port = None,
       r_path = None,
       r_tls = [],
       r_socket =
         (if protocol (uri options) = ''http:'' then TunnelSocket
          else TlsOnTunnel (tls options) (host (uri options))) \<rparr>"

definition createProxiedConnection :: "env \<Rightarrow> RequestOptions \<Rightarrow> world \<Rightarrow> (error + connection) \<times> world" where
  "createProxiedConnection e options w =
     (case proxy options of
        None \<Rightarrow> (Inl (Error ''unreachable''), w)
      | Some px \<Rightarrow>
          (case httpLib (protocol (px_uri px)) of
             Inl err \<Rightarrow> (Inl err, w)
           | Inr proxyHttpLib \<Rightarrow>
               (case httpLib (protocol (uri options)) of
                  Inl err \<Rightarrow> (Inl err, w)
                | Inr targetHttpLib \<Rightarrow>
                    (Inr \<lparr> conn_options = options, conn_link = Tunnel targetHttpLib,
                           calls = [] \<rparr>,
                     w \<lparr> requests := requests w
                          @ [connect_request e proxyHttpLib targetHttpLib px options] \<rparr>))))"

definition direct_request :: "env \<Rightarrow> transport \<Rightarrow> RequestOptions \<Rightarrow> client_request" where
  "direct_request e lib options =
     spread_tls
       \<lparr> via = lib,
         target = Some (uri options),
         r_method = request_method options,
         r_headers = obj_spread [(''User-Agent'', HStr (defaultUserAgent e))] (headers options),
         r_auth = request_auth options,
         r_agent = agent options,
         r_host = None,
         r_port = None,
         r_path = None,
         r_tls = [],
         r_socket = OwnSocket \<rparr>
       (tls options)"

definition createConnection :: "env \<Rightarrow> RequestOptions \<Rightarrow> world \<Rightarrow> (error + connection) \<times> world" where
  "createConnection e options w =
     (case httpLib (protocol (uri options)) of
        Inl err \<Rightarrow> (Inl err, w)
      | Inr lib \<Rightarrow>
          (Inr \<lparr> conn_options = options, conn_link = Direct, calls = [] \<rparr>,
           w \<lparr> requests := requests w @ [direct_request e lib options] \<rparr>))"

subsection \<open>The body encoder\<close>

text \<open>
  The chain of \<open>if\<close>s at the end of \<open>_request\<close>: the calls made on the connection,
  and the error thrown, if any. \<open>payload.length\<close> throws when \<open>JSON.stringify\<close>
  returned \<open>undefined\<close>.
\<close>

fun encode_defined_body :: "env \<Rightarrow> jsany \<Rightarrow> conn_call list \<times> error option" where
  "encode_defined_body e (AStr s) =
     ([SetHeader ''Content-Length'' (HNum (length s)), End (Some (AStr s))], None)"
| "encode_defined_body e (ABuffer b) =
     ([SetHeader ''Content-Length'' (HNum (length b)), End (Some (ABuffer b))], None)"
| "encode_defined_body e (AReadable False) = ([Pipe (BodyStream (AReadable False))], None)"
| "encode_defined_body e v =
     (case json_stringify e v of
        Inl err \<Rightarrow> ([], Some err)
      | Inr None \<Rightarrow>
          ([SetHeader ''Content-Type'' (HStr ''application/json; charset=utf-8'')],
           Some (TypeError ''Cannot read properties of undefined''))
      | Inr (Some payload) \<Rightarrow>
          ([SetHeader ''Content-Type'' (HStr ''application/json; charset=utf-8''),
            SetHeader ''Content-Length'' (HNum (length payload)),
            End (Some (AStr payload))], None))"

definition encode_body :: "env \<Rightarrow> RequestOptions \<Rightarrow> conn_call list \<times> error option" where
  "encode_body e options =
     (if method_name options = [] \<or> toLowerCase (method_name options) = ''get''
      then ([End None], None)
      else
        (case body options of
           Some v \<Rightarrow> encode_defined_body e v
         | None \<Rightarrow>
             if truthy_opt (form options) then
               (let payload = qs_stringify e (the (form options)) in
                ([SetHeader ''Content-Type'' (HStr ''application/x-www-form-urlencoded''),
                  SetHeader ''Content-Length'' (HNum (length payload)),
                  End (Some (AStr payload))], None))
             else if truthy_opt (formData options) then
               ([SetHeader ''Content-Type''
                   (HStr (''multipart/form-data;boundary='' @ form_boundary e)),
                 Pipe (FormStream
                   (map (\<lambda>(key, v). (key, v, key))
                      (object_entries e (the (formData options)))))], None)
             else ([], None)))"

subsection \<open>The entry points\<close>

text \<open>
  \<open>_request\<close> is \<open>request_impl\<close> here, \<open>request.get\<close> is \<open>request_get\<close> and
  \<open>request.defaults\<close> is \<open>request_defaults\<close>. The first argument of an entry point
  is a URI (a string or a \<open>URL\<close>) or an options object.
\<close>

datatype request_arg = Uri uri_arg | Opts Options

definition with_path :: "env \<Rightarrow> RequestOptions \<Rightarrow> RequestOptions" where
  "with_path e options =
     (if truthy_str (path options)
      then options \<lparr> uri := set_pathname e (uri options) (the (path options)) \<rparr>
      else options)"

definition search_object :: "env \<Rightarrow> url \<Rightarrow> (string \<times> jsany) list \<Rightarrow> jsany" where
  "search_object e u extra =
     AObject (obj_spread (obj_spread [] (map (\<lambda>(k, v). (k, AStr v)) (searchParams e u))) extra)"

definition with_query :: "env \<Rightarrow> RequestOptions \<Rightarrow> RequestOptions" where
  "with_query e options =
     (case qs options of
        Some q \<Rightarrow>
          options \<lparr> uri := set_search e (uri options)
                             (qs_stringify e (search_object e (uri options) q)) \<rparr>
      | None \<Rightarrow>
          (case query options of
             Some q \<Rightarrow>
               options \<lparr> uri := set_search e (uri options)
                                  (querystring_stringify e (search_object e (uri options) q)) \<rparr>
           | None \<Rightarrow> options))"

definition request_impl :: "env \<Rightarrow> request_arg \<Rightarrow> Options option \<Rightarrow> world \<Rightarrow> (error + connection) \<times> world" where
  "request_impl e a opts w =
     (case sanitizeOpts e
             (Inr (case a of
                     Uri u \<Rightarrow> (spread_opt opts) \<lparr> o_uri := Def u \<rparr>
                   | Opts ob \<Rightarrow> spread (spread_opt opts) ob)) of
        Inl err \<Rightarrow> (Inl err, w)
      | Inr sanitized \<Rightarrow>
          (let options = with_query e (with_path e sanitized) in
           (case (if proxy options \<noteq> None then createProxiedConnection e options w
                  else createConnection e options w) of
              (Inl err, w') \<Rightarrow> (Inl err, w')
            | (Inr conn, w') \<Rightarrow>
                (case encode_body e options of
                   (cs, Some err) \<Rightarrow> (Inl err, w')
                 | (cs, None) \<Rightarrow>
                     (Inr (conn \<lparr> calls := cs \<rparr>),
                      w' \<lparr> connections := connections w' @ [conn \<lparr> calls := cs \<rparr>] \<rparr>)))))"

definition wrapWithDefaults ::
  "(request_arg \<Rightarrow> Options option \<Rightarrow> world \<Rightarrow> (error + connection) \<times> world)
   \<Rightarrow> Options \<Rightarrow> request_arg \<Rightarrow> Options option \<Rightarrow> world \<Rightarrow> (error + connection) \<times> world" where
  "wrapWithDefaults fn defaults a opts w =
     (case a of
        Uri u \<Rightarrow>
          fn (Uri u)
             (Some (spread (spread no_options defaults)
                      (case opts of None \<Rightarrow> no_options | Some p \<Rightarrow> p))) w
      | Opts ob \<Rightarrow> fn (Opts (spread (spread no_options defaults) ob)) None w)"

definition methodRequests :: "env \<Rightarrow> string \<Rightarrow> request_arg \<Rightarrow> Options option \<Rightarrow> world \<Rightarrow> (error + connection) \<times> world" where
  "methodRequests e verb = wrapWithDefaults (request_impl e) (no_options \<lparr> o_method := Def verb \<rparr>)"

definition request_get :: "env \<Rightarrow> request_arg \<Rightarrow> Options option \<Rightarrow> world \<Rightarrow> (error + connection) \<times> world" where
  "request_get e = methodRequests e ''get''"

definition request_defaults :: "env \<Rightarrow> Options \<Rightarrow> request_arg \<Rightarrow> Options option \<Rightarrow> world \<Rightarrow> (error + connection) \<times> world" where
  "request_defaults e opts = wrapWithDefaults (request_impl e) opts"

subsection \<open>Responses and redirects\<close>

text \<open>
  What the network delivers to a transport request: a response (status code and
  headers; for a CONNECT request Node reports it as the \<open>connect\<close> event) or an
  error. A response object gains the property \<open>redirects\<close> when the client sets it.
\<close>

datatype net_event = Response "nat option" "(string \<times> string) list" | NetError string

record response =
  statusCode :: "nat option"
  resp_headers :: "(string \<times> string) list"
  redirects :: "string list option"

text \<open>
  What a connection ends with: the \<open>response\<close> event, the \<open>error\<close> event, nothing
  (the network has not answered), or an exception thrown inside the \<open>response\<close>
  handler, which no caller can catch.
\<close>

datatype outcome = EmitResponse response | EmitError string | Pending | Uncaught error

definition follows :: "RequestOptions \<Rightarrow> nat option \<Rightarrow> bool" where
  "follows options sc =
     (num_gt (maxRedirects options) 0 \<and>
      (case sc of None \<Rightarrow> False | Some c \<Rightarrow> c \<noteq> 0 \<and> c \<ge> 301 \<and> c \<le> 303))"

definition qualifiedRedirection :: "url \<Rightarrow> string option \<Rightarrow> string" where
  "qualifiedRedirection u location =
     (if truthy_str location \<and> startsWith (the location) ''/''
      then origin u @ the location
      else if truthy_str location then the location else ''/'')"

text \<open>The listener on the connection of the redirected request.\<close>

fun on_next_response :: "string \<Rightarrow> outcome \<Rightarrow> outcome" where
  "on_next_response q (EmitResponse nextResp) =
     EmitResponse (nextResp \<lparr> redirects :=
       Some (q # (case redirects nextResp of None \<Rightarrow> [] | Some t \<Rightarrow> t)) \<rparr>)"
| "on_next_response q out = out"

text \<open>
  Modelled from the spec: the class \<open>Connection\<close> (connection.ts) is not among the
  sources. The spec makes it an event emitter for \<open>request\<close>, \<open>response\<close> and
  \<open>error\<close>, whose listeners receive the value that was emitted, and lets every
  transport-level error surface as the \<open>error\<close> event of the connection.
  \<open>createConnection\<close> itself registers no \<open>error\<close> listener on its request.
\<close>

fun wrapper_on_error :: "string \<Rightarrow> outcome" where
  "wrapper_on_error err = EmitError err"

text \<open>
  The events \<open>evs\<close> reach the requests of one call in the order in which the requests
  are opened: a request is opened only when its predecessor has been answered.
  For a connection through a proxy the first event answers the CONNECT request and the
  second the target request; the handlers of \<open>createProxiedConnection\<close> pass a
  response or an error on as they come. For a direct connection the \<open>response\<close>
  handler of \<open>createConnection\<close> runs. Draining the superseded response
  (\<open>resp.on('data', ...)\<close>) changes nothing that the model records.
\<close>

fun settle :: "env \<Rightarrow> connection \<Rightarrow> net_event list \<Rightarrow> world \<Rightarrow> outcome \<times> world" where
  "settle e conn [] w = (Pending, w)"
| "settle e conn (NetError err # evs) w =
     ((case conn_link conn of
         Tunnel targetHttpLib \<Rightarrow> EmitError err
       | Direct \<Rightarrow> wrapper_on_error err), w)"
| "settle e conn (Response sc hs # evs) w =
     (case conn_link conn of
        Tunnel targetHttpLib \<Rightarrow>
          (let w' = w \<lparr> requests := requests w
                         @ [tunnel_request e targetHttpLib (conn_options conn)] \<rparr> in
           (case evs of
              [] \<Rightarrow> (Pending, w')
            | NetError err # _ \<Rightarrow> (EmitError err, w')
            | Response sc' hs' # _ \<Rightarrow>
                (EmitResponse \<lparr> statusCode = sc', resp_headers = hs', redirects = None \<rparr>, w')))
      | Direct \<Rightarrow>
          if follows (conn_options conn) sc then
            (let q = qualifiedRedirection (uri (conn_options conn)) (map_of hs ''location'') in
             (case request_get e (Uri (UriString q))
                     (Some (no_options \<lparr> o_maxRedirects :=
                        Def (num_sub (maxRedirects (conn_options conn)) 1) \<rparr>)) w of
                (Inl err, w') \<Rightarrow> (Uncaught err, w')
              | (Inr next, w') \<Rightarrow>
                  (case settle e next evs w' of
                     (out, w'') \<Rightarrow> (on_next_response q out, w''))))
          else (EmitResponse \<lparr> statusCode = sc, resp_headers = hs, redirects = None \<rparr>, w))"

text \<open>A whole call: the synchronous part, then the events.\<close>

definition exchange ::
  "(request_arg \<Rightarrow> Options option \<Rightarrow> world \<Rightarrow> (error + connection) \<times> world)
   \<Rightarrow> env \<Rightarrow> request_arg \<Rightarrow> Options option \<Rightarrow> net_event list \<Rightarrow> world
   \<Rightarrow> (error + connection \<times> outcome) \<times> world" where
  "exchange fn e a opts evs w =
     (case fn a opts w of
        (Inl err, w') \<Rightarrow> (Inl err, w')
      | (Inr conn, w') \<Rightarrow>
          (case settle e conn evs w' of (out, w'') \<Rightarrow> (Inr (conn, out), w'')))"

section \<open>A sample environment\<close>

text \<open>
  The values of Node's URL parser on the URLs of the examples below, and plain stand-ins
  for the other library functions. The theorems hold for every environment; the
  examples are evaluated in this one.
\<close>

definition mk_url :: "string \<Rightarrow> string \<Rightarrow> string \<Rightarrow> string \<Rightarrow> url" where
  "mk_url pr h po pa = \<lparr> protocol = pr, hostname = h, port = po, pathname = pa, search = [] \<rparr>"

definition sample_urls :: "(string \<times> url) list" where
  "sample_urls =
     [(''http://x'', mk_url ''http:'' ''x'' [] ''/''),
      (''http://a.example/start'', mk_url ''http:'' ''a.example'' [] ''/start''),
      (''http://a.example/one'', mk_url ''http:'' ''a.example'' [] ''/one''),
      (''http://b.example/two'', mk_url ''http:'' ''b.example'' [] ''/two''),
      (''https://a.example/x'', mk_url ''https:'' ''a.example'' [] ''/x''),
      (''https://a.example/next'', mk_url ''https:'' ''a.example'' [] ''/next''),
      (''https://b.example/y'', mk_url ''https:'' ''b.example'' [] ''/y''),
      (''https://t.example'', mk_url ''https:'' ''t.example'' [] ''/''),
      (''http://p.example:8080'', mk_url ''http:'' ''p.example'' ''8080'' ''/'')]"

definition sample_env :: env where
  "sample_env =
     \<lparr> parse_url = map_of sample_urls,
       set_pathname = (\<lambda>u p. u \<lparr> pathname := p \<rparr>),
       set_search = (\<lambda>u q. u \<lparr> search := (if q = [] then [] else ''?'' @ q) \<rparr>),
       searchParams = (\<lambda>u. []),
       qs_stringify = (\<lambda>v. case v of AObject [(k, AStr x)] \<Rightarrow> k @ ''='' @ x | _ \<Rightarrow> []),
       querystring_stringify = (\<lambda>v. case v of AObject [(k, AStr x)] \<Rightarrow> k @ ''='' @ x | _ \<Rightarrow> []),
       json_stringify =
         (\<lambda>v. case v of ANull \<Rightarrow> Inr (Some ''null'')
               | ABool b \<Rightarrow> Inr (Some (if b then ''true'' else ''false''))
               | AObject [] \<Rightarrow> Inr (Some ''{}'')
               | _ \<Rightarrow> Inr None),
       object_entries = (\<lambda>v. case v of AObject kvs \<Rightarrow> kvs | _ \<Rightarrow> []),
       form_boundary = ''--------------------------000000000000000000000000'',
       base64 = (\<lambda>s. if s = ''user:pass'' then ''dXNlcjpwYXNz'' else []),
       defaultUserAgent = ''Beggar/1.0.0 (Node.js v18.0.0; linux x64)'' \<rparr>"

definition idle :: world where
  "idle = \<lparr> requests = [], connections = [] \<rparr>"

section \<open>Vocabulary of the properties\<close>

subsection \<open>Redirects\<close>

text \<open>
  The descriptor that \<open>sanitizeOpts\<close> builds for \<open>request.get(q,
  { maxRedirects: m })\<close> when \<open>q\<close> parses to \<open>u\<close>, the transport request opened
  for it, and the connection returned.
\<close>

definition redirect_descriptor :: "url \<Rightarrow> jsnum \<Rightarrow> RequestOptions" where
  "redirect_descriptor u m =
     \<lparr> method_name = ''get'', headers = [], uri = u, proxy = None,
       maxRedirects = math_max (math_floor m) (Fin 0), auth = None, body = None,
       form = None, formData = None, qs = None, query = None, decompress = True,
       rejectError = False, raw = False, tls = None, simple = False, path = None,
       agent = None \<rparr>"

definition plain_get_request :: "env \<Rightarrow> transport \<Rightarrow> url \<Rightarrow> client_request" where
  "plain_get_request e lib u =
     \<lparr> via = lib, target = Some u, r_method = ''GET'',
       r_headers = [(''User-Agent'', HStr (defaultUserAgent e))], r_auth = None,
       r_agent = None, r_host = None, r_port = None, r_path = None, r_tls = [],
       r_socket = OwnSocket \<rparr>"

definition redirect_connection :: "url \<Rightarrow> jsnum \<Rightarrow> connection" where
  "redirect_connection u m =
     \<lparr> conn_options = redirect_descriptor u m, conn_link = Direct, calls = [End None] \<rparr>"

text \<open>
  The trail of a response, and the targets of the requests opened between two worlds,
  in the order of opening.
\<close>

definition trail :: "response \<Rightarrow> string list" where
  "trail r = (case redirects r of None \<Rightarrow> [] | Some t \<Rightarrow> t)"

definition trail_of :: "outcome \<Rightarrow> string list" where
  "trail_of out = (case out of EmitResponse r \<Rightarrow> trail r | _ \<Rightarrow> [])"

definition visited :: "world \<Rightarrow> world \<Rightarrow> url option list" where
  "visited w w' = map target (drop (length (requests w)) (requests w'))"

text \<open>
  The claim of the spec about the order of the trail: the entries of the trail name the
  URIs visited, most recent first.
\<close>

definition most_recent_first :: "env \<Rightarrow> string list \<Rightarrow> url option list \<Rightarrow> bool" where
  "most_recent_first e t v = (map (parse_url e) t = rev v)"

text \<open>
  A chain of redirect responses that can be followed from the URL \<open>u\<close>: each has a
  status from 301 to 303 and a location that parses to a URL of protocol http or https.
  The result lists, for each response, the location, the URL and the library.
\<close>

definition redirect_status :: "nat option \<Rightarrow> bool" where
  "redirect_status sc = (case sc of None \<Rightarrow> False | Some c \<Rightarrow> 301 \<le> c \<and> c \<le> 303)"

fun chain_hops :: "env \<Rightarrow> url \<Rightarrow> net_event list \<Rightarrow> (string \<times> url \<times> transport) list option" where
  "chain_hops e u [] = Some []"
| "chain_hops e u (NetError err # evs) = None"
| "chain_hops e u (Response sc hs # evs) =
     (if redirect_status sc then
        (case parse_url e (qualifiedRedirection u (map_of hs ''location'')) of
           None \<Rightarrow> None
         | Some u' \<Rightarrow>
             (case httpLib (protocol u') of
                Inl err \<Rightarrow> None
              | Inr lib \<Rightarrow>
                  (case chain_hops e u' evs of
                     None \<Rightarrow> None
                   | Some hops \<Rightarrow>
                       Some ((qualifiedRedirection u (map_of hs ''location''), u', lib) # hops))))
      else None)"

definition hop_request :: "env \<Rightarrow> string \<times> url \<times> transport \<Rightarrow> client_request" where
  "hop_request e h = plain_get_request e (snd (snd h)) (fst (snd h))"

subsection \<open>The body encoder\<close>

text \<open>
  The three effects that the spec counts, the test of the first case, and the bodies
  that reach the JSON case.
\<close>

fun is_effect :: "conn_call \<Rightarrow> bool" where
  "is_effect (SetHeader k v) = False"
| "is_effect (End p) = True"
| "is_effect (Pipe src) = True"

definition exactly_one_effect :: "conn_call list \<Rightarrow> bool" where
  "exactly_one_effect cs = (length (filter is_effect cs) = 1)"

definition is_get :: "RequestOptions \<Rightarrow> bool" where
  "is_get options = (method_name options = [] \<or> toLowerCase (method_name options) = ''get'')"

fun json_body :: "jsany \<Rightarrow> bool" where
  "json_body (AStr s) = False"
| "json_body (ABuffer b) = False"
| "json_body (AReadable objectMode) = objectMode"
| "json_body v = True"

subsection \<open>Calls\<close>

text \<open>
  The descriptor of the connection a call returned, and the options object that
  \<open>_request\<close> hands to \<open>sanitizeOpts\<close>.
\<close>

definition descriptor_of :: "(error + connection) \<times> world \<Rightarrow> RequestOptions option" where
  "descriptor_of res = (case fst res of Inl err \<Rightarrow> None | Inr conn \<Rightarrow> Some (conn_options conn))"

definition merged_options :: "request_arg \<Rightarrow> Options option \<Rightarrow> Options" where
  "merged_options a opts =
     (case a of
        Uri u \<Rightarrow> (spread_opt opts) \<lparr> o_uri := Def u \<rparr>
      | Opts ob \<Rightarrow> spread (spread_opt opts) ob)"

subsection \<open>Sample inputs\<close>

text \<open>
  A POST with a header, auth and a body to \<open>http://a.example/start\<close>, allowed two
  redirects; the connection and the world after the call; and two redirects, the first
  with a root-relative location.
\<close>

definition sample_options :: Options where
  "sample_options =
     no_options \<lparr> o_method := Def ''post'',
                  o_headers := Def [(''X-Token'', HStr ''secret'')],
                  o_maxRedirects := Def (Fin 2),
                  o_auth := Def \<lparr> auth_username = ''user'', auth_password = ''pass'' \<rparr>,
                  o_body := Def (AStr ''hello'') \<rparr>"

definition sample_connection :: connection where
  "sample_connection =
     \<lparr> conn_options =
         \<lparr> method_name = ''post'', headers = [(''X-Token'', HStr ''secret'')],
           uri = mk_url ''http:'' ''a.example'' [] ''/start'', proxy = None,
           maxRedirects = Fin 2,
           auth = Some \<lparr> auth_username = ''user'', auth_password = ''pass'' \<rparr>,
           body = Some (AStr ''hello''), form = None, formData = None, qs = None,
           query = None, decompress = True, rejectError = False, raw = False, tls = None,
           simple = False, path = None, agent = None \<rparr>,
       conn_link = Direct,
       calls = [SetHeader ''Content-Length'' (HNum 5), End (Some (AStr ''hello''))] \<rparr>"

definition sample_world :: world where
  "sample_world =
     \<lparr> requests =
         [\<lparr> via = Http, target = Some (mk_url ''http:'' ''a.example'' [] ''/start''),
            r_method = ''POST'',
            r_headers = [(''User-Agent'', HStr (defaultUserAgent sample_env)),
                         (''X-Token'', HStr ''secret'')],
            r_auth = Some ''user:pass'', r_agent = None, r_host = None, r_port = None,
            r_path = None, r_tls = [], r_socket = OwnSocket \<rparr>],
       connections = [sample_connection] \<rparr>"

definition sample_chain :: "net_event list" where
  "sample_chain =
     [Response (Some 302) [(''location'', ''/one'')],
      Response (Some 301) [(''location'', ''http://b.example/two'')]]"

text \<open>
  A GET connection to \<open>https://a.example/x\<close>, allowed one redirect.
\<close>

definition sample_get_connection :: connection where
  "sample_get_connection = redirect_connection (mk_url ''https:'' ''a.example'' [] ''/x'') (Fin 1)"

text \<open>
  A GET of \<open>https://t.example\<close> through the proxy \<open>http://p.example:8080\<close> with
  a username and a password, allowed one redirect: the options, the descriptor, the
  CONNECT request, and the answers of the proxy and of the target.
\<close>

definition sample_proxied_options :: Options where
  "sample_proxied_options =
     no_options \<lparr> o_proxy := Def (ProxyObject
                    \<lparr> po_uri = UriString ''http://p.example:8080'', po_tls = None,
                      po_username = Some ''user'', po_password = Some ''pass'' \<rparr>),
                  o_maxRedirects := Def (Fin 1) \<rparr>"

definition sample_proxy :: proxy_descriptor where
  "sample_proxy =
     \<lparr> px_uri = mk_url ''http:'' ''p.example'' ''8080'' ''/'', px_tls = None,
       px_username = Some ''user'', px_password = Some ''pass'' \<rparr>"

definition sample_proxied_descriptor :: RequestOptions where
  "sample_proxied_descriptor =
     \<lparr> method_name = ''GET'', headers = [], uri = mk_url ''https:'' ''t.example'' [] ''/'',
       proxy = Some sample_proxy, maxRedirects = Fin 1, auth = None, body = None,
       form = None, formData = None, qs = None, query = None, decompress = True,
       rejectError = False, raw = False, tls = None, simple = False, path = None,
       agent = None \<rparr>"

definition sample_connect_request :: client_request where
  "sample_connect_request =
     \<lparr> via = Http, target = None, r_method = ''CONNECT'',
       r_headers = [(''host'', HStr ''t.example''),
                    (''User-Agent'', HStr (defaultUserAgent sample_env)),
                    (''Proxy-Authorization'', HStr ''Basic dXNlcjpwYXNz'')],
       r_auth = None, r_agent = Some (AgentBool False), r_host = Some ''p.example'',
       r_port = Some ''8080'', r_path = Some ''t.example:443'', r_tls = [],
       r_socket = OwnSocket \<rparr>"

definition sample_proxied_chain :: "net_event list" where
  "sample_proxied_chain =
     [Response (Some 200) [],
      Response (Some 302) [(''location'', ''https://a.example/next'')],
      Response (Some 302) [(''location'', ''https://b.example/y'')]]"

text \<open>
  A POST descriptor without body, form and formData, and two layers of options with
  headers.
\<close>

definition sample_post :: RequestOptions where
  "sample_post =
     \<lparr> method_name = ''POST'', headers = [], uri = mk_url ''http:'' ''x'' [] ''/'', proxy = None,
       maxRedirects = Fin 0, auth = None, body = None, form = None, formData = None,
       qs = None, query = None, decompress = True, rejectError = False, raw = False,
       tls = None, simple = False, path = None, agent = None \<rparr>"

definition sample_defaults :: Options where
  "sample_defaults = no_options \<lparr> o_headers := Def [(''X-A'', HStr ''1'')] \<rparr>"

definition sample_overrides :: Options where
  "sample_overrides = no_options \<lparr> o_headers := Def [(''X-B'', HStr ''2'')] \<rparr>"

section \<open>Properties\<close>

subsection \<open>Basic facts\<close>

lemma spread_field_missing[simp]: "spread_field Missing b = b"
  by (cases b) simp_all

lemma get_spread_none:
  "get_field a = None \<Longrightarrow> get_field b = None \<Longrightarrow> get_field (spread_field a b) = None"
  by (cases b) simp_all

lemma spread_no_options: "spread no_options b = b"
  by (simp add: spread_def no_options_def)

lemma toLowerCase_get: "toLowerCase ''get'' = ''get''"
  by (simp add: toLowerCase_def lower_char_def)

lemma toUpperCase_get: "toUpperCase ''get'' = ''GET''"
  by (simp add: toUpperCase_def upper_char_def)

lemma httpLib_Http: "httpLib p = Inr lib \<Longrightarrow> (lib = Http) = (p = ''http:'')"
  by (auto simp: httpLib_def split: if_splits)

lemmas call_defs =
  request_defaults_def methodRequests_def wrapWithDefaults_def request_impl_def
  sanitizeOpts_def sanitize_object_def spread_opt_def spread_def no_options_def uriToURL_def
  sanitize_proxy_def getMaxRedirects_def truthy_str_def with_path_def with_query_def
  createConnection_def createProxiedConnection_def httpLib_def encode_body_def
  toLowerCase_def lower_char_def toUpperCase_def upper_char_def direct_request_def
  connect_request_def proxyAuth_def proxyPath_def host_def spread_tls_def request_method_def
  request_auth_def obj_spread_def truthy_opt_def Let_def

lemmas sample_defs = sample_env_def sample_urls_def mk_url_def idle_def

subsection \<open>The redirected request\<close>

text \<open>
  \<open>request.get(q, { maxRedirects: m })\<close> in full: it throws when \<open>q\<close> does not
  parse or names another protocol than http and https, and otherwise opens a plain GET.
\<close>

lemma sanitize_redirect:
  "sanitizeOpts e (Inr (spread_opt (Some (spread (spread no_options (no_options \<lparr> o_method := Def ''get'' \<rparr>))
       (no_options \<lparr> o_maxRedirects := Def m \<rparr>))) \<lparr> o_uri := Def (UriString q) \<rparr>))
   = (case parse_url e q of None \<Rightarrow> Inl (TypeError ''Invalid URL'')
      | Some u \<Rightarrow> Inr (redirect_descriptor u m))"
  by (simp add: sanitizeOpts_def sanitize_object_def spread_opt_def spread_def no_options_def
      uriToURL_def sanitize_proxy_def getMaxRedirects_def truthy_str_def redirect_descriptor_def
      split: option.splits)

lemma request_get_redirect:
  "request_get e (Uri (UriString q)) (Some (no_options \<lparr> o_maxRedirects := Def m \<rparr>)) w =
     (case parse_url e q of
        None \<Rightarrow> (Inl (TypeError ''Invalid URL''), w)
      | Some u \<Rightarrow>
          (case httpLib (protocol u) of
             Inl err \<Rightarrow> (Inl err, w)
           | Inr lib \<Rightarrow>
               (Inr (redirect_connection u m),
                w \<lparr> requests := requests w @ [plain_get_request e lib u],
                    connections := connections w @ [redirect_connection u m] \<rparr>)))"
  unfolding request_get_def methodRequests_def wrapWithDefaults_def request_impl_def
  apply (simp only: request_arg.case option.case sanitize_redirect)
  apply (simp add: redirect_descriptor_def with_path_def with_query_def truthy_str_def
      createConnection_def encode_body_def toLowerCase_get toUpperCase_get direct_request_def
      spread_tls_def request_method_def request_auth_def obj_spread_def plain_get_request_def
      redirect_connection_def Let_def
      split: option.splits sum.splits)
  done

lemma redirect_connection_link: "conn_link (redirect_connection u m) = Direct"
  by (simp add: redirect_connection_def)

lemma redirect_connection_uri: "uri (conn_options (redirect_connection u m)) = u"
  by (simp add: redirect_connection_def redirect_descriptor_def)

lemma redirect_budget_nat:
  "maxRedirects (conn_options (redirect_connection u (num_sub (Fin (of_nat (Suc n))) 1))) = Fin (of_nat n)"
  by (simp add: redirect_connection_def redirect_descriptor_def)

lemma follows_iff:
  "follows options sc \<longleftrightarrow> num_gt (maxRedirects options) 0 \<and> redirect_status sc"
  by (auto simp: follows_def redirect_status_def split: option.splits)

text \<open>
  One step of the \<open>response\<close> handler of a direct connection: the redirect is
  followed, the handler throws, or the response is the terminal one.
\<close>

lemma settle_follow:
  assumes "conn_link conn = Direct"
    and "follows (conn_options conn) sc"
    and "parse_url e (qualifiedRedirection (uri (conn_options conn)) (map_of hs ''location'')) = Some u"
    and "httpLib (protocol u) = Inr lib"
  shows "settle e conn (Response sc hs # evs) w =
     (case settle e (redirect_connection u (num_sub (maxRedirects (conn_options conn)) 1)) evs
             (w \<lparr> requests := requests w @ [plain_get_request e lib u],
                  connections := connections w
                    @ [redirect_connection u (num_sub (maxRedirects (conn_options conn)) 1)] \<rparr>) of
        (out, w2) \<Rightarrow>
          (on_next_response
             (qualifiedRedirection (uri (conn_options conn)) (map_of hs ''location'')) out, w2))"
  using assms by (simp add: request_get_redirect)

lemma settle_not_followed:
  assumes "conn_link conn = Direct"
    and "follows (conn_options conn) sc"
    and "parse_url e (qualifiedRedirection (uri (conn_options conn)) (map_of hs ''location'')) = None
         \<or> (\<exists>u err. parse_url e (qualifiedRedirection (uri (conn_options conn)) (map_of hs ''location'')) = Some u
               \<and> httpLib (protocol u) = Inl err)"
  shows "\<exists>err. settle e conn (Response sc hs # evs) w = (Uncaught err, w)"
  using assms by (auto simp: request_get_redirect)

lemma settle_terminal:
  assumes "conn_link conn = Direct" and "\<not> follows (conn_options conn) sc"
  shows "settle e conn (Response sc hs # evs) w =
     (EmitResponse \<lparr> statusCode = sc, resp_headers = hs, redirects = None \<rparr>, w)"
  using assms by simp

lemma on_next_response_EmitResponse:
  "on_next_response q out = EmitResponse r \<Longrightarrow>
     \<exists>r0. out = EmitResponse r0 \<and> r = r0 \<lparr> redirects := Some (q # trail r0) \<rparr>"
  by (cases out) (auto simp: trail_def)

text \<open>
  Requests are only ever added to the world.
\<close>

lemma settle_appends:
  "settle e conn evs w = (out, w') \<Longrightarrow> \<exists>new. requests w' = requests w @ new"
proof (induction evs arbitrary: conn w out w')
  case Nil
  then show ?case by simp
next
  case (Cons ev evs)
  show ?case
  proof (cases ev)
    case (NetError err)
    with Cons.prems show ?thesis by simp
  next
    case (Response sc hs)
    show ?thesis
    proof (cases "conn_link conn")
      case (Tunnel lib)
      with Cons.prems Response show ?thesis
        by (auto simp: Let_def split: list.splits net_event.splits)
    next
      case Direct
      show ?thesis
      proof (cases "follows (conn_options conn) sc")
        case False
        with Cons.prems Response Direct show ?thesis by simp
      next
        case True
        let ?q = "qualifiedRedirection (uri (conn_options conn)) (map_of hs ''location'')"
        let ?m = "num_sub (maxRedirects (conn_options conn)) 1"
        show ?thesis
        proof (cases "parse_url e ?q")
          case None
          with Cons.prems Response Direct True show ?thesis
            by (simp add: request_get_redirect)
        next
          case (Some u)
          show ?thesis
          proof (cases "httpLib (protocol u)")
            case (Inl err)
            with Cons.prems Response Direct True Some show ?thesis
              by (simp add: request_get_redirect)
          next
            case (Inr lib)
            let ?w1 = "w \<lparr> requests := requests w @ [plain_get_request e lib u],
                          connections := connections w @ [redirect_connection u ?m] \<rparr>"
            obtain out1 w2 where s: "settle e (redirect_connection u ?m) evs ?w1 = (out1, w2)"
              by (cases "settle e (redirect_connection u ?m) evs ?w1") auto
            from Cons.IH [OF s] obtain new where "requests w2 = requests ?w1 @ new" by blast
            moreover from Cons.prems Response Direct True Some Inr s have "w' = w2"
              by (simp add: request_get_redirect)
            ultimately show ?thesis by simp
          qed
        qed
      qed
    qed
  qed
qed

text \<open>
  A chain of redirects as long as the budget: the response after the chain is the
  terminal one, whatever its status.
\<close>

lemma chase_exhausts:
  assumes "conn_link conn = Direct"
    and "maxRedirects (conn_options conn) = Fin (of_nat (length evs))"
    and "chain_hops e (uri (conn_options conn)) evs = Some hops"
  shows "fst (settle e conn (evs @ [Response sc hs]) w) =
           EmitResponse \<lparr> statusCode = sc, resp_headers = hs,
             redirects = (if evs = [] then None else Some (map fst hops)) \<rparr>
         \<and> requests (snd (settle e conn (evs @ [Response sc hs]) w)) =
             requests w @ map (hop_request e) hops
         \<and> length hops = length evs"
  using assms
proof (induction evs arbitrary: conn hops w)
  case Nil
  then show ?case by (simp add: follows_def)
next
  case (Cons ev evs)
  from Cons.prems(3) obtain sc1 hs1 where ev: "ev = Response sc1 hs1"
    by (cases ev) auto
  let ?q = "qualifiedRedirection (uri (conn_options conn)) (map_of hs1 ''location'')"
  from Cons.prems(3) ev obtain u lib rest where
    st: "redirect_status sc1" and u: "parse_url e ?q = Some u"
    and lib: "httpLib (protocol u) = Inr lib"
    and rest: "chain_hops e u evs = Some rest" and hops: "hops = (?q, u, lib) # rest"
    by (auto split: if_splits option.splits sum.splits)
  from Cons.prems(2) st have fol: "follows (conn_options conn) sc1"
    by (simp add: follows_iff)
  let ?next = "redirect_connection u (num_sub (maxRedirects (conn_options conn)) 1)"
  let ?w1 = "w \<lparr> requests := requests w @ [plain_get_request e lib u],
                connections := connections w @ [?next] \<rparr>"
  have budget: "maxRedirects (conn_options ?next) = Fin (of_nat (length evs))"
    using Cons.prems(2) redirect_budget_nat [of u "length evs"] by simp
  have ih: "fst (settle e ?next (evs @ [Response sc hs]) ?w1) =
           EmitResponse \<lparr> statusCode = sc, resp_headers = hs,
             redirects = (if evs = [] then None else Some (map fst rest)) \<rparr>
         \<and> requests (snd (settle e ?next (evs @ [Response sc hs]) ?w1)) =
             requests ?w1 @ map (hop_request e) rest
         \<and> length rest = length evs"
    by (rule Cons.IH [OF redirect_connection_link budget]) (simp add: redirect_connection_uri rest)
  have step: "settle e conn ((ev # evs) @ [Response sc hs]) w =
      (on_next_response ?q (fst (settle e ?next (evs @ [Response sc hs]) ?w1)),
       snd (settle e ?next (evs @ [Response sc hs]) ?w1))"
    using settle_follow [OF Cons.prems(1) fol u lib, of "evs @ [Response sc hs]" w] ev
    by (simp add: case_prod_beta)
  from ih show ?case
    unfolding step hops by (auto simp: hop_request_def)
qed

subsection \<open>The samples\<close>

text \<open>
  The sample connection and its world are what the entry point returns for the sample
  options; the sample chain leads over two locations.
\<close>

lemma sample_call:
  "request_impl sample_env (Uri (UriString ''http://a.example/start'')) (Some sample_options) idle
     = (Inr sample_connection, sample_world)"
  by (simp add: request_impl_def sanitizeOpts_def sanitize_object_def spread_opt_def spread_def
      no_options_def sample_options_def uriToURL_def sanitize_proxy_def getMaxRedirects_def
      truthy_str_def with_path_def with_query_def createConnection_def httpLib_def
      encode_body_def toLowerCase_def lower_char_def toUpperCase_def upper_char_def
      direct_request_def spread_tls_def request_method_def request_auth_def obj_spread_def
      sample_env_def sample_urls_def mk_url_def idle_def sample_connection_def
      sample_world_def Let_def)

lemma sample_parse:
  "parse_url sample_env ''http://a.example/one'' = Some (mk_url ''http:'' ''a.example'' [] ''/one'')"
  "parse_url sample_env ''http://b.example/two'' = Some (mk_url ''http:'' ''b.example'' [] ''/two'')"
  "parse_url sample_env ''https://a.example/next'' = Some (mk_url ''https:'' ''a.example'' [] ''/next'')"
  "parse_url sample_env ''https://b.example/y'' = Some (mk_url ''https:'' ''b.example'' [] ''/y'')"
  "parse_url sample_env ''/'' = None"
  by (simp_all add: sample_env_def sample_urls_def)

lemma sample_hops:
  "chain_hops sample_env (mk_url ''http:'' ''a.example'' [] ''/start'') sample_chain =
     Some [(''http://a.example/one'', mk_url ''http:'' ''a.example'' [] ''/one'', Http),
           (''http://b.example/two'', mk_url ''http:'' ''b.example'' [] ''/two'', Http)]"
  by (simp add: sample_chain_def redirect_status_def qualifiedRedirection_def truthy_str_def
      startsWith_def origin_def host_def mk_url_def sample_env_def sample_urls_def httpLib_def)

lemma sample_settle:
  "settle sample_env sample_connection (sample_chain @ [Response (Some 200) []]) sample_world =
     (EmitResponse \<lparr> statusCode = Some 200, resp_headers = [],
        redirects = Some [''http://a.example/one'', ''http://b.example/two''] \<rparr>,
      sample_world \<lparr> requests := requests sample_world @
          [plain_get_request sample_env Http (mk_url ''http:'' ''a.example'' [] ''/one''),
           plain_get_request sample_env Http (mk_url ''http:'' ''b.example'' [] ''/two'')],
        connections := connections sample_world @
          [redirect_connection (mk_url ''http:'' ''a.example'' [] ''/one'') (Fin 1),
           redirect_connection (mk_url ''http:'' ''b.example'' [] ''/two'') (Fin 0)] \<rparr>)"
  by (simp add: sample_chain_def sample_connection_def follows_def qualifiedRedirection_def
      truthy_str_def startsWith_def origin_def host_def mk_url_def sample_parse [unfolded mk_url_def]
      request_get_redirect httpLib_def redirect_connection_def redirect_descriptor_def
      sample_world_def)

lemma sample_budget: "maxRedirects (conn_options sample_connection) = Fin (of_nat 2)"
  by (simp add: sample_connection_def)

lemma sample_proxied_call:
  "request_impl sample_env (Uri (UriString ''https://t.example'')) (Some sample_proxied_options) idle
     = (Inr \<lparr> conn_options = sample_proxied_descriptor, conn_link = Tunnel Https,
              calls = [End None] \<rparr>,
        \<lparr> requests = [sample_connect_request],
          connections = [\<lparr> conn_options = sample_proxied_descriptor, conn_link = Tunnel Https,
              calls = [End None] \<rparr>] \<rparr>)"
  by (simp add: request_impl_def sanitizeOpts_def sanitize_object_def spread_opt_def spread_def
      no_options_def sample_proxied_options_def uriToURL_def sanitize_proxy_def getMaxRedirects_def
      truthy_str_def with_path_def with_query_def createProxiedConnection_def httpLib_def
      encode_body_def toLowerCase_def lower_char_def
      connect_request_def proxyAuth_def proxyPath_def host_def spread_tls_def
      sample_env_def sample_urls_def mk_url_def idle_def sample_proxied_descriptor_def
      sample_proxy_def sample_connect_request_def Let_def)

text \<open>
  A redirect without \<open>Location\<close>, or with a relative one that does not start with a
  slash, is not followed: \<open>new URL\<close> rejects the location, and \<open>request.get\<close>
  throws inside the \<open>response\<close> handler.
\<close>

lemma redirect_without_location_throws:
  "settle sample_env sample_connection [Response (Some 302) []] sample_world =
     (Uncaught (TypeError ''Invalid URL''), sample_world)"
  by (simp add: sample_connection_def follows_def qualifiedRedirection_def truthy_str_def
      request_get_redirect sample_parse)

lemma redirect_with_relative_location_throws:
  "settle sample_env sample_connection
     [Response (Some 302) [(''location'', ''one'')], Response (Some 302) [(''location'', ''/two'')],
      Response (Some 302) [(''location'', ''/three'')]] sample_world =
     (Uncaught (TypeError ''Invalid URL''), sample_world)"
  by (simp add: sample_connection_def follows_def qualifiedRedirection_def truthy_str_def
      startsWith_def request_get_redirect sample_env_def sample_urls_def)

subsection \<open>Defaults (C1)\<close>

lemma request_impl_descriptor:
  assumes "request_impl e a opts w = (Inr conn, w')"
  shows "\<exists>s. sanitizeOpts e (Inr (merged_options a opts)) = Inr s
             \<and> conn_options conn = with_query e (with_path e s)"
  using assms
  by (auto simp: request_impl_def merged_options_def Let_def createConnection_def
      createProxiedConnection_def split: sum.splits prod.splits if_splits option.splits)

lemma headers_with_query: "headers (with_query e (with_path e s)) = headers s"
  by (simp add: with_query_def with_path_def split: option.splits)

lemma sanitize_headers:
  "sanitizeOpts e (Inr ob) = Inr s \<Longrightarrow>
     headers s = (case get_field (o_headers ob) of Some h \<Rightarrow> h | None \<Rightarrow> [])"
  by (auto simp: sanitizeOpts_def sanitize_object_def split: option.splits sum.splits)

text \<open>
  Claim C1, as the code has it. The entry point returned by \<open>request.defaults\<close>
  merges the defaults under the options of the call key by key, and \<open>headers\<close> is one
  key: the headers of the descriptor are the headers object of the call when the call
  has the key \<open>headers\<close> (none when its value is \<open>undefined\<close>), and the headers
  object of the defaults otherwise. Headers of the two layers are never combined.
\<close>

theorem defaults_shallow_merge:
  assumes "request_defaults e d (Uri u) opts w = (Inr conn, w')"
  shows "headers (conn_options conn) =
     (case o_headers (case opts of None \<Rightarrow> no_options | Some p \<Rightarrow> p) of
        Missing \<Rightarrow> (case get_field (o_headers d) of Some h \<Rightarrow> h | None \<Rightarrow> [])
      | Undefined \<Rightarrow> []
      | Def h \<Rightarrow> h)"
proof -
  let ?p = "case opts of None \<Rightarrow> no_options | Some p \<Rightarrow> p"
  from assms have "request_impl e (Uri u) (Some (spread d ?p)) w = (Inr conn, w')"
    by (simp add: request_defaults_def wrapWithDefaults_def spread_no_options)
  from request_impl_descriptor [OF this] obtain s where
    s: "sanitizeOpts e (Inr (merged_options (Uri u) (Some (spread d ?p)))) = Inr s"
    and c: "conn_options conn = with_query e (with_path e s)"
    by blast
  have "get_field (o_headers (merged_options (Uri u) (Some (spread d ?p)))) =
      get_field (spread_field (o_headers d) (o_headers ?p))"
    by (simp add: merged_options_def spread_opt_def spread_no_options) (simp add: spread_def)
  with sanitize_headers [OF s] c show ?thesis
    by (cases "o_headers ?p") (simp_all add: headers_with_query)
qed

text \<open>
  With defaults alone their headers arrive; with headers in both layers only those of
  the call do, also for a key that the defaults hold as well.
\<close>

theorem defaults_shallow_merge_witness:
  "map_option headers (descriptor_of
     (request_defaults sample_env sample_defaults (Uri (UriString ''http://x'')) None idle)) =
     Some [(''X-A'', HStr ''1'')]
   \<and> map_option headers (descriptor_of
     (request_defaults sample_env
        (no_options \<lparr> o_headers := Def [(''X-A'', HStr ''1''), (''X-B'', HStr ''0'')] \<rparr>)
        (Uri (UriString ''http://x'')) (Some sample_overrides) idle)) =
     Some [(''X-B'', HStr ''2'')]"
proof -
  obtain c1 w1 where r1:
    "request_defaults sample_env sample_defaults (Uri (UriString ''http://x'')) None idle
       = (Inr c1, w1)"
    by (simp add: call_defs sample_defs sample_defaults_def)
  obtain c2 w2 where r2:
    "request_defaults sample_env
        (no_options \<lparr> o_headers := Def [(''X-A'', HStr ''1''), (''X-B'', HStr ''0'')] \<rparr>)
        (Uri (UriString ''http://x'')) (Some sample_overrides) idle = (Inr c2, w2)"
    by (simp add: call_defs sample_defs sample_overrides_def)
  from defaults_shallow_merge [OF r1] defaults_shallow_merge [OF r2] show ?thesis
    unfolding r1 r2
    by (simp add: descriptor_of_def sample_defaults_def sample_overrides_def no_options_def)
qed

text \<open>
  Claim C1 as stated fails: \<open>request.defaults({headers: {'X-A': '1'}})('http://x',
  {headers: {'X-B': '2'}})\<close> yields a descriptor whose headers hold \<open>X-B\<close> only.
\<close>

theorem defaults_headers_not_combined:
  "map_option headers (descriptor_of
     (request_defaults sample_env sample_defaults (Uri (UriString ''http://x''))
        (Some sample_overrides) idle)) =
     Some [(''X-B'', HStr ''2'')]"
  by (simp add: call_defs sample_defs descriptor_of_def sample_defaults_def
      sample_overrides_def)

subsection \<open>The redirect trail (C2)\<close>

text \<open>
  Claim C2, as the code has it. When a direct connection ends with a response, the
  trail of that response (its \<open>redirects\<close>, empty when the property is not set)
  lists the locations of the redirects that were followed in the order in which they
  were requested, the first redirect first: parsed, the entries of the trail are the
  targets of the requests opened while the redirects were chased, in the order of
  opening. So the length of the trail is the number of redirects followed, and no trail
  is attached exactly when no redirect was followed.
\<close>

theorem trail_in_visiting_order:
  assumes "conn_link conn = Direct"
    and "settle e conn evs w = (EmitResponse r, w')"
  shows "visited w w' = map (parse_url e) (trail r)
         \<and> (redirects r = None \<longleftrightarrow> requests w' = requests w)"
  using assms
proof (induction evs arbitrary: conn w r w')
  case Nil
  then show ?case by simp
next
  case (Cons ev evs)
  show ?case
  proof (cases ev)
    case (NetError err)
    with Cons.prems show ?thesis by simp
  next
    case (Response sc hs)
    show ?thesis
    proof (cases "follows (conn_options conn) sc")
      case False
      with Cons.prems Response show ?thesis
        by (auto simp: visited_def trail_def)
    next
      case True
      let ?q = "qualifiedRedirection (uri (conn_options conn)) (map_of hs ''location'')"
      let ?m = "num_sub (maxRedirects (conn_options conn)) 1"
      from settle_not_followed [OF Cons.prems(1) True, of e hs evs w] Cons.prems(2) Response
      obtain u lib where u: "parse_url e ?q = Some u" and lib: "httpLib (protocol u) = Inr lib"
        by (cases "parse_url e ?q"; cases "httpLib (protocol (the (parse_url e ?q)))") auto
      let ?w1 = "w \<lparr> requests := requests w @ [plain_get_request e lib u],
                    connections := connections w @ [redirect_connection u ?m] \<rparr>"
      obtain out1 w2 where s: "settle e (redirect_connection u ?m) evs ?w1 = (out1, w2)"
        by (cases "settle e (redirect_connection u ?m) evs ?w1") auto
      from Cons.prems(2) Response settle_follow [OF Cons.prems(1) True u lib, of evs w] s
      have out: "on_next_response ?q out1 = EmitResponse r" and w2: "w' = w2"
        by simp_all
      from on_next_response_EmitResponse [OF out]
      obtain r0 where r0: "out1 = EmitResponse r0" and r: "r = r0 \<lparr> redirects := Some (?q # trail r0) \<rparr>"
        by blast
      from Cons.IH [OF redirect_connection_link s [unfolded r0]]
      have ih: "visited ?w1 w2 = map (parse_url e) (trail r0)" by simp
      from settle_appends [OF s] obtain new where new: "requests w2 = requests ?w1 @ new"
        by blast
      have "visited w w2 = Some u # visited ?w1 w2"
        using new by (simp add: visited_def plain_get_request_def)
      with ih u r w2 new show ?thesis
        by (simp add: trail_def)
    qed
  qed
qed

theorem trail_in_visiting_order_witness:
  "conn_link sample_connection = Direct
   \<and> settle sample_env sample_connection (sample_chain @ [Response (Some 200) []]) sample_world =
       (EmitResponse \<lparr> statusCode = Some 200, resp_headers = [],
          redirects = Some [''http://a.example/one'', ''http://b.example/two''] \<rparr>,
        sample_world \<lparr> requests := requests sample_world @
            [plain_get_request sample_env Http (mk_url ''http:'' ''a.example'' [] ''/one''),
             plain_get_request sample_env Http (mk_url ''http:'' ''b.example'' [] ''/two'')],
          connections := connections sample_world @
            [redirect_connection (mk_url ''http:'' ''a.example'' [] ''/one'') (Fin 1),
             redirect_connection (mk_url ''http:'' ''b.example'' [] ''/two'') (Fin 0)] \<rparr>)
   \<and> visited sample_world
        (snd (settle sample_env sample_connection (sample_chain @ [Response (Some 200) []])
               sample_world)) =
       [Some (mk_url ''http:'' ''a.example'' [] ''/one''),
        Some (mk_url ''http:'' ''b.example'' [] ''/two'')]"
proof -
  have link: "conn_link sample_connection = Direct"
    by (simp add: sample_connection_def)
  from trail_in_visiting_order [OF link sample_settle] link sample_settle show ?thesis
    by (simp add: trail_def sample_parse)
qed

text \<open>
  Claim C2 as stated fails: after the two redirects of the sample chain the trail is
  in the order of the visits, not most recent first.
\<close>

theorem trail_not_most_recent_first:
  "\<not> most_recent_first sample_env
       (trail_of (fst (settle sample_env sample_connection
                         (sample_chain @ [Response (Some 200) []]) sample_world)))
       (visited sample_world
          (snd (settle sample_env sample_connection
                  (sample_chain @ [Response (Some 200) []]) sample_world)))"
  by (simp add: sample_settle most_recent_first_def trail_of_def trail_def visited_def
      sample_parse plain_get_request_def mk_url_def)

subsection \<open>The redirect budget (C3)\<close>

text \<open>
  A connection that an entry point returns is direct exactly when its descriptor has no
  proxy.
\<close>

lemma request_impl_link:
  assumes "request_impl e a opts w = (Inr conn, w')"
  shows "(conn_link conn = Direct) = (proxy (conn_options conn) = None)"
  using assms
  by (auto simp: request_impl_def Let_def createConnection_def createProxiedConnection_def
      split: sum.splits prod.splits if_splits option.splits)


text \<open>
  Claim C3, as the code has it. On a direct connection (a descriptor without proxy)
  with \<open>maxRedirects = N > 0\<close>, answered by \<open>N\<close> redirect responses (status 301
  to 303) whose locations each resolve to a URL that parses and has the protocol http or
  https, and then by one more response: exactly \<open>N\<close> requests are opened for the
  redirects, each a plain GET of the next location, and the response number \<open>N + 1\<close>
  is the terminal one, also when it is a redirect itself. With \<open>maxRedirects = 0\<close> a
  302 response is the terminal response as it came: the world is unchanged (no request
  is issued) and no trail is attached.
\<close>

theorem redirect_budget:
  assumes "conn_link conn = Direct"
  shows "(maxRedirects (conn_options conn) = Fin (of_nat N) \<and> 0 < N \<and> length evs = N
          \<and> chain_hops e (uri (conn_options conn)) evs = Some hops \<longrightarrow>
            fst (settle e conn (evs @ [Response sc hs]) w) =
              EmitResponse \<lparr> statusCode = sc, resp_headers = hs,
                redirects = Some (map fst hops) \<rparr>
            \<and> requests (snd (settle e conn (evs @ [Response sc hs]) w)) =
                requests w @ map (hop_request e) hops
            \<and> length hops = N)
       \<and> (maxRedirects (conn_options conn) = Fin 0 \<longrightarrow>
            settle e conn (Response (Some 302) hs' # evs') w =
              (EmitResponse \<lparr> statusCode = Some 302, resp_headers = hs', redirects = None \<rparr>, w))"
  (is "(?A \<longrightarrow> ?B) \<and> (?C \<longrightarrow> ?D)")
proof -
  have first: "?B" if a: "?A"
  proof -
    from a have b: "maxRedirects (conn_options conn) = Fin (of_nat (length evs))"
      and h: "chain_hops e (uri (conn_options conn)) evs = Some hops" and ne: "evs \<noteq> []"
      by auto
    from chase_exhausts [OF assms b h, of sc hs w] ne a show ?thesis
      by simp
  qed
  have second: "?D" if c: "?C"
  proof -
    from c have "\<not> follows (conn_options conn) (Some 302)"
      by (simp add: follows_def)
    from settle_terminal [OF assms this] show ?thesis .
  qed
  from first second show ?thesis by blast
qed

theorem redirect_budget_witness:
  "conn_link sample_connection = Direct
   \<and> maxRedirects (conn_options sample_connection) = Fin 2
   \<and> fst (settle sample_env sample_connection
            (sample_chain @ [Response (Some 303) [(''location'', ''/three'')]]) sample_world) =
       EmitResponse \<lparr> statusCode = Some 303, resp_headers = [(''location'', ''/three'')],
         redirects = Some [''http://a.example/one'', ''http://b.example/two''] \<rparr>
   \<and> requests (snd (settle sample_env sample_connection
            (sample_chain @ [Response (Some 303) [(''location'', ''/three'')]]) sample_world)) =
       requests sample_world @
         [plain_get_request sample_env Http (mk_url ''http:'' ''a.example'' [] ''/one''),
          plain_get_request sample_env Http (mk_url ''http:'' ''b.example'' [] ''/two'')]
   \<and> conn_link (redirect_connection (mk_url ''http:'' ''b.example'' [] ''/two'') (Fin 0)) = Direct
   \<and> maxRedirects (conn_options
        (redirect_connection (mk_url ''http:'' ''b.example'' [] ''/two'') (Fin 0))) = Fin 0
   \<and> settle sample_env (redirect_connection (mk_url ''http:'' ''b.example'' [] ''/two'') (Fin 0))
        [Response (Some 302) [(''location'', ''/three'')]] sample_world =
       (EmitResponse \<lparr> statusCode = Some 302, resp_headers = [(''location'', ''/three'')],
          redirects = None \<rparr>, sample_world)"
proof -
  have link: "conn_link sample_connection = Direct"
    by (simp add: sample_connection_def)
  have uri: "uri (conn_options sample_connection) = mk_url ''http:'' ''a.example'' [] ''/start''"
    by (simp add: sample_connection_def)
  have len: "length sample_chain = 2"
    by (simp add: sample_chain_def)
  have zero: "maxRedirects (conn_options
        (redirect_connection (mk_url ''http:'' ''b.example'' [] ''/two'') (Fin 0))) = Fin 0"
    by (simp add: redirect_connection_def redirect_descriptor_def)
  from redirect_budget [OF link, of 2 sample_chain sample_env _ "Some 303"
      "[(''location'', ''/three'')]" sample_world]
    redirect_budget [OF redirect_connection_link, of _ _ 0 "[]" sample_env "[]" None "[]"
      sample_world "[(''location'', ''/three'')]" "[]"]
    sample_budget link uri len sample_hops zero
  show ?thesis
    by (simp add: hop_request_def redirect_connection_link)
qed

text \<open>
  Claim C3 as stated fails for a descriptor with a proxy: the connection through the
  tunnel has no redirect handling, so with \<open>maxRedirects = 1\<close> the first 302 response
  of the target is the terminal response and no redirect is followed. The requests of
  the call are the CONNECT request and the target request.
\<close>

theorem proxied_redirect_not_followed:
  "exchange (request_impl sample_env) sample_env (Uri (UriString ''https://t.example''))
      (Some sample_proxied_options) sample_proxied_chain idle =
     (Inr (\<lparr> conn_options = sample_proxied_descriptor, conn_link = Tunnel Https,
              calls = [End None] \<rparr>,
           EmitResponse \<lparr> statusCode = Some 302,
             resp_headers = [(''location'', ''https://a.example/next'')], redirects = None \<rparr>),
      \<lparr> requests = [sample_connect_request,
                     tunnel_request sample_env Https sample_proxied_descriptor],
        connections = [\<lparr> conn_options = sample_proxied_descriptor, conn_link = Tunnel Https,
              calls = [End None] \<rparr>] \<rparr>)
   \<and> maxRedirects sample_proxied_descriptor = Fin 1"
  by (simp add: exchange_def sample_proxied_call sample_proxied_chain_def
      sample_proxied_descriptor_def)

subsection \<open>The body encoder (C4)\<close>

lemma encode_defined_json:
  "json_body v \<Longrightarrow> encode_defined_body e v =
     (case json_stringify e v of
        Inl err \<Rightarrow> ([], Some err)
      | Inr None \<Rightarrow>
          ([SetHeader ''Content-Type'' (HStr ''application/json; charset=utf-8'')],
           Some (TypeError ''Cannot read properties of undefined''))
      | Inr (Some payload) \<Rightarrow>
          ([SetHeader ''Content-Type'' (HStr ''application/json; charset=utf-8''),
            SetHeader ''Content-Length'' (HNum (length payload)),
            End (Some (AStr payload))], None))"
  by (cases v) auto

lemma encode_defined_at_most_one:
  "length (filter is_effect (fst (encode_defined_body e v))) \<le> 1"
  by (cases "json_body v")
     (auto simp: encode_defined_json split: sum.splits option.splits elim: json_body.elims)

text \<open>
  Claim C4, as the code has it. The encoder takes the first case that matches, in the
  order: method missing or GET (end at once); string or buffer body (length header,
  write, end); byte stream body not in object mode (pipe); any other defined body for
  which \<open>JSON.stringify\<close> returns a text (JSON headers, write, end); truthy
  \<open>form\<close> (URL-encoded, write, end); truthy \<open>formData\<close> (multipart, pipe). A
  string body wins over \<open>form\<close> and \<open>formData\<close> whenever the method is not GET.
  When the method is not GET, the body is \<open>undefined\<close> and \<open>form\<close> and
  \<open>formData\<close> are unset or falsy, the encoder does nothing: no header is set, nothing
  is written, and the writable side stays open. In every case at most one of "end",
  "write then end" and "pipe" occurs.
\<close>

theorem encoder_precedence:
  "(is_get options \<longrightarrow> encode_body e options = ([End None], None))
   \<and> (\<not> is_get options \<and> body options = Some (AStr s) \<longrightarrow>
        encode_body e options =
          ([SetHeader ''Content-Length'' (HNum (length s)), End (Some (AStr s))], None))
   \<and> (\<not> is_get options \<and> body options = Some (ABuffer b) \<longrightarrow>
        encode_body e options =
          ([SetHeader ''Content-Length'' (HNum (length b)), End (Some (ABuffer b))], None))
   \<and> (\<not> is_get options \<and> body options = Some (AReadable False) \<longrightarrow>
        encode_body e options = ([Pipe (BodyStream (AReadable False))], None))
   \<and> (\<not> is_get options \<and> body options = Some v \<and> json_body v
        \<and> json_stringify e v = Inr (Some payload) \<longrightarrow>
        encode_body e options =
          ([SetHeader ''Content-Type'' (HStr ''application/json; charset=utf-8''),
            SetHeader ''Content-Length'' (HNum (length payload)),
            End (Some (AStr payload))], None))
   \<and> (\<not> is_get options \<and> body options = None \<and> truthy_opt (form options) \<longrightarrow>
        encode_body e options =
          ([SetHeader ''Content-Type'' (HStr ''application/x-www-form-urlencoded''),
            SetHeader ''Content-Length'' (HNum (length (qs_stringify e (the (form options))))),
            End (Some (AStr (qs_stringify e (the (form options)))))], None))
   \<and> (\<not> is_get options \<and> body options = None \<and> \<not> truthy_opt (form options)
        \<and> truthy_opt (formData options) \<longrightarrow>
        encode_body e options =
          ([SetHeader ''Content-Type''
              (HStr (''multipart/form-data;boundary='' @ form_boundary e)),
            Pipe (FormStream (map (\<lambda>(key, v). (key, v, key))
                    (object_entries e (the (formData options)))))], None))
   \<and> (\<not> is_get options \<and> body options = None \<and> \<not> truthy_opt (form options)
        \<and> \<not> truthy_opt (formData options) \<longrightarrow>
        encode_body e options = ([], None))
   \<and> length (filter is_effect (fst (encode_body e options))) \<le> 1"
proof -
  have "length (filter is_effect (fst (encode_body e options))) \<le> 1"
    using encode_defined_at_most_one [of e]
    by (simp add: encode_body_def Let_def split: option.splits)
  then show ?thesis
    by (simp add: encode_body_def is_get_def Let_def encode_defined_json)
qed

theorem encoder_precedence_witness:
  "encode_body sample_env (sample_post \<lparr> method_name := ''get'', body := Some (AStr ''hello'') \<rparr>) =
     ([End None], None)
   \<and> encode_body sample_env
       (sample_post \<lparr> body := Some (AStr ''hello''), form := Some (AObject [(''a'', AStr ''1'')]),
                      formData := Some (AObject [(''f'', AStr ''v'')]) \<rparr>) =
     ([SetHeader ''Content-Length'' (HNum 5), End (Some (AStr ''hello''))], None)
   \<and> encode_body sample_env (sample_post \<lparr> body := Some (ABuffer [1, 2, 3]) \<rparr>) =
     ([SetHeader ''Content-Length'' (HNum 3), End (Some (ABuffer [1, 2, 3]))], None)
   \<and> encode_body sample_env (sample_post \<lparr> body := Some (AReadable False) \<rparr>) =
     ([Pipe (BodyStream (AReadable False))], None)
   \<and> encode_body sample_env (sample_post \<lparr> body := Some ANull \<rparr>) =
     ([SetHeader ''Content-Type'' (HStr ''application/json; charset=utf-8''),
       SetHeader ''Content-Length'' (HNum 4), End (Some (AStr ''null''))], None)
   \<and> encode_body sample_env
       (sample_post \<lparr> form := Some (AObject [(''a'', AStr ''1'')]),
                      formData := Some (AObject [(''f'', AStr ''v'')]) \<rparr>) =
     ([SetHeader ''Content-Type'' (HStr ''application/x-www-form-urlencoded''),
       SetHeader ''Content-Length'' (HNum 3), End (Some (AStr ''a=1''))], None)
   \<and> encode_body sample_env (sample_post \<lparr> formData := Some (AObject [(''f'', AStr ''v'')]) \<rparr>) =
     ([SetHeader ''Content-Type''
         (HStr (''multipart/form-data;boundary='' @ form_boundary sample_env)),
       Pipe (FormStream [(''f'', AStr ''v'', ''f'')])], None)
   \<and> encode_body sample_env sample_post = ([], None)"
proof -
  show ?thesis
    using
      encoder_precedence [of "sample_post \<lparr> method_name := ''get'', body := Some (AStr ''hello'') \<rparr>"
        sample_env]
      encoder_precedence [of "sample_post \<lparr> body := Some (AStr ''hello''),
          form := Some (AObject [(''a'', AStr ''1'')]),
          formData := Some (AObject [(''f'', AStr ''v'')]) \<rparr>" sample_env "''hello''"]
      encoder_precedence [of "sample_post \<lparr> body := Some (ABuffer [1, 2, 3]) \<rparr>" sample_env
        _ "[1, 2, 3]"]
      encoder_precedence [of "sample_post \<lparr> body := Some (AReadable False) \<rparr>" sample_env]
      encoder_precedence [of "sample_post \<lparr> body := Some ANull \<rparr>" sample_env _ _ ANull "''null''"]
      encoder_precedence [of "sample_post \<lparr> form := Some (AObject [(''a'', AStr ''1'')]),
          formData := Some (AObject [(''f'', AStr ''v'')]) \<rparr>" sample_env]
      encoder_precedence [of "sample_post \<lparr> formData := Some (AObject [(''f'', AStr ''v'')]) \<rparr>"
        sample_env]
      encoder_precedence [of sample_post sample_env]
    by (simp add: is_get_def sample_post_def toLowerCase_def lower_char_def truthy_opt_def
        sample_env_def)
qed

text \<open>
  Claim C4 as stated fails: for a POST without body, form and formData none of the
  three effects occurs, so "exactly one" does not hold.
\<close>

theorem nothing_written_for_empty_post:
  "\<not> exactly_one_effect (fst (encode_body sample_env sample_post))"
  by (simp add: exactly_one_effect_def encode_body_def sample_post_def toLowerCase_def
      lower_char_def truthy_opt_def)

subsection \<open>The agent (C5)\<close>

text \<open>
  \<open>sanitizeOpts\<close> never copies \<open>agent\<close> into the descriptor.
\<close>

lemma sanitize_drops_agent: "sanitizeOpts e x = Inr s \<Longrightarrow> agent s = None"
  by (auto simp: sanitizeOpts_def sanitize_object_def split: option.splits sum.splits)

text \<open>
  Claim C5 fails on the code: a call with an agent in its options opens its transport
  request with \<open>agent: undefined\<close>, and the descriptor holds no agent.
\<close>

theorem agent_dropped:
  "map r_agent (requests (snd (request_impl sample_env (Uri (UriString ''http://x''))
      (Some (no_options \<lparr> o_agent := Def (AgentObject 7) \<rparr>)) idle))) = [None]
   \<and> map_option agent (descriptor_of (request_impl sample_env (Uri (UriString ''http://x''))
      (Some (no_options \<lparr> o_agent := Def (AgentObject 7) \<rparr>)) idle)) = Some None"
  by (simp add: call_defs sample_defs descriptor_of_def)

subsection \<open>Content-Length (C6)\<close>

text \<open>
  For a string of ASCII characters the number of code units is the number of bytes.
\<close>

lemma utf8_length_ascii:
  "\<forall>c \<in> set s. (of_char c :: nat) < 128 \<Longrightarrow> utf8_length s = length s"
  by (induction s) (simp_all add: utf8_length_def)

text \<open>
  Claim C6 fails on the code: for the body of the one character U+00E9 the
  encoder sets \<open>Content-Length\<close> to 1, the number of UTF-16 code units, while the
  body is two bytes long.
\<close>

theorem content_length_counts_code_units:
  "fst (encode_body sample_env (sample_post \<lparr> body := Some (AStr [CHR 0xE9]) \<rparr>)) =
     [SetHeader ''Content-Length'' (HNum 1), End (Some (AStr [CHR 0xE9]))]
   \<and> utf8_length [CHR 0xE9] = 2"
  by (simp add: encode_body_def sample_post_def toLowerCase_def lower_char_def utf8_length_def)

subsection \<open>The CONNECT request (C7)\<close>

text \<open>
  Claim C7, as the code has it. For a descriptor with a proxy whose username and
  password are both non-empty strings, whose protocols are http or https, and whose
  proxy TLS options do not hold the key \<open>path\<close>: the call opens a CONNECT request
  whose path is the host name of the target, a colon, and the port of the target, or 80
  for an http target and 443 for an https target without port, and which carries the
  header \<open>Proxy-Authorization\<close> with \<open>Basic\<close> and the base64 text of
  \<open>username:password\<close>.
\<close>

theorem connect_request_path_and_auth:
  assumes "proxy options = Some px"
    and "truthy_str (px_username px)" and "truthy_str (px_password px)"
    and "httpLib (protocol (px_uri px)) = Inr proxyHttpLib"
    and "httpLib (protocol (uri options)) = Inr targetHttpLib"
    and "case px_tls px of None \<Rightarrow> True | Some t \<Rightarrow> tls_path t = Missing"
  shows "requests (snd (createProxiedConnection e options w)) =
           requests w @ [connect_request e proxyHttpLib targetHttpLib px options]
         \<and> r_method (connect_request e proxyHttpLib targetHttpLib px options) = ''CONNECT''
         \<and> r_path (connect_request e proxyHttpLib targetHttpLib px options) =
             Some (hostname (uri options) @ '':'' @
               (if port (uri options) \<noteq> [] then port (uri options)
                else if protocol (uri options) = ''http:'' then ''80'' else ''443''))
         \<and> map_of (r_headers (connect_request e proxyHttpLib targetHttpLib px options))
               ''Proxy-Authorization'' =
             Some (HStr (''Basic '' @
               base64 e (the (px_username px) @ '':'' @ the (px_password px))))"
proof -
  have "requests (snd (createProxiedConnection e options w)) =
           requests w @ [connect_request e proxyHttpLib targetHttpLib px options]"
    using assms(1,4,5) by (simp add: createProxiedConnection_def)
  moreover have "r_method (connect_request e proxyHttpLib targetHttpLib px options) = ''CONNECT''"
    by (simp add: connect_request_def spread_tls_def split: option.splits)
  moreover have "r_path (connect_request e proxyHttpLib targetHttpLib px options) =
             Some (hostname (uri options) @ '':'' @
               (if port (uri options) \<noteq> [] then port (uri options)
                else if protocol (uri options) = ''http:'' then ''80'' else ''443''))"
    using assms(6) httpLib_Http [OF assms(5)]
    by (simp add: connect_request_def spread_tls_def proxyPath_def split: option.splits)
  moreover have "map_of (r_headers (connect_request e proxyHttpLib targetHttpLib px options))
               ''Proxy-Authorization'' =
             Some (HStr (''Basic '' @
               base64 e (the (px_username px) @ '':'' @ the (px_password px))))"
    using assms(2,3)
    by (simp add: connect_request_def spread_tls_def proxyAuth_def truthy_str_def
        split: option.splits)
  ultimately show ?thesis by simp
qed

text \<open>
  The target \<open>https://t.example\<close> through the proxy \<open>http://p.example:8080\<close>.
\<close>

theorem connect_request_path_and_auth_witness:
  "requests (snd (createProxiedConnection sample_env sample_proxied_descriptor idle)) =
     [sample_connect_request]
   \<and> r_method sample_connect_request = ''CONNECT''
   \<and> r_path sample_connect_request = Some ''t.example:443''
   \<and> map_of (r_headers sample_connect_request) ''Proxy-Authorization'' =
       Some (HStr ''Basic dXNlcjpwYXNz'')"
proof -
  have p: "proxy sample_proxied_descriptor = Some sample_proxy"
    and u: "truthy_str (px_username sample_proxy)" "truthy_str (px_password sample_proxy)"
    and l1: "httpLib (protocol (px_uri sample_proxy)) = Inr Http"
    and l2: "httpLib (protocol (uri sample_proxied_descriptor)) = Inr Https"
    and t: "case px_tls sample_proxy of None \<Rightarrow> True | Some t \<Rightarrow> tls_path t = Missing"
    by (simp_all add: sample_proxied_descriptor_def sample_proxy_def truthy_str_def httpLib_def
        mk_url_def)
  have c: "connect_request sample_env Http Https sample_proxy sample_proxied_descriptor =
      sample_connect_request"
    by (simp add: connect_request_def sample_connect_request_def sample_proxied_descriptor_def
        sample_proxy_def proxyAuth_def proxyPath_def host_def spread_tls_def truthy_str_def
        sample_env_def mk_url_def)
  from connect_request_path_and_auth [OF p u l1 l2 t, of sample_env idle] show ?thesis
    unfolding c by (simp add: idle_def sample_proxied_descriptor_def sample_proxy_def mk_url_def
        sample_env_def)
qed

text \<open>
  Claim C7 as stated fails: with a username and an empty password, both present, the
  CONNECT request carries no \<open>Proxy-Authorization\<close> header.
\<close>

theorem empty_password_sends_no_proxy_auth:
  "map (\<lambda>r. map_of (r_headers r) ''Proxy-Authorization'')
     (requests (snd (createProxiedConnection sample_env
        (sample_proxied_descriptor
           \<lparr> proxy := Some (sample_proxy \<lparr> px_password := Some [] \<rparr>) \<rparr>) idle))) = [None]"
  by (simp add: createProxiedConnection_def sample_proxied_descriptor_def sample_proxy_def
      httpLib_def mk_url_def connect_request_def proxyAuth_def truthy_str_def spread_tls_def
      idle_def)

text \<open>
  The TLS options of the proxy are spread last over the options of the CONNECT
  request: a \<open>path\<close> among them replaces the path.
\<close>

lemma proxy_tls_path_overrides:
  "map r_path
     (requests (snd (createProxiedConnection sample_env
        (sample_proxied_descriptor
           \<lparr> proxy := Some (sample_proxy \<lparr> px_tls := Some
                \<lparr> tls_host = Missing, tls_port = Missing, tls_path = Def ''/tmp/agent.sock'',
                  tls_other = [] \<rparr> \<rparr>) \<rparr>) idle))) = [Some ''/tmp/agent.sock'']"
  by (simp add: createProxiedConnection_def sample_proxied_descriptor_def sample_proxy_def
      httpLib_def mk_url_def connect_request_def spread_tls_def idle_def)

subsection \<open>The location of a redirect (C8)\<close>

text \<open>
  Claim C8. For every redirect that is followed (the location parses and has the
  protocol http or https, so that the request is opened): the location requested is the
  origin of the original URI followed by the \<open>Location\<close> value when that value
  starts with a slash, the value itself otherwise, and \<open>/\<close> when the header is absent
  (an empty value is falsy and counts as absent); and the request that follows the
  redirect goes to the URL parsed from that location.
\<close>

theorem location_resolution:
  assumes "conn_link conn = Direct"
    and "follows (conn_options conn) sc"
    and "parse_url e (qualifiedRedirection (uri (conn_options conn)) (map_of hs ''location'')) = Some u"
    and "httpLib (protocol u) = Inr lib"
  shows "qualifiedRedirection (uri (conn_options conn)) (map_of hs ''location'') =
           (case map_of hs ''location'' of
              None \<Rightarrow> ''/''
            | Some l \<Rightarrow>
                if startsWith l ''/'' then origin (uri (conn_options conn)) @ l
                else if l = [] then ''/'' else l)
         \<and> visited w (snd (settle e conn [Response sc hs] w)) = [Some u]"
proof -
  have "settle e conn [Response sc hs] w =
     (Pending,
      w \<lparr> requests := requests w @ [plain_get_request e lib u],
          connections := connections w
            @ [redirect_connection u (num_sub (maxRedirects (conn_options conn)) 1)] \<rparr>)"
    using settle_follow [OF assms, of "[]" w] by simp
  then have "visited w (snd (settle e conn [Response sc hs] w)) = [Some u]"
    by (simp add: visited_def plain_get_request_def)
  moreover have "qualifiedRedirection (uri (conn_options conn)) (map_of hs ''location'') =
           (case map_of hs ''location'' of
              None \<Rightarrow> ''/''
            | Some l \<Rightarrow>
                if startsWith l ''/'' then origin (uri (conn_options conn)) @ l
                else if l = [] then ''/'' else l)"
    by (auto simp: qualifiedRedirection_def truthy_str_def startsWith_def split: option.splits)
  ultimately show ?thesis by simp
qed

text \<open>
  \<open>Location: /next\<close> against \<open>https://a.example/x\<close> gives
  \<open>https://a.example/next\<close>; \<open>Location: https://b.example/y\<close> is taken as it is.
\<close>

theorem location_resolution_witness:
  "qualifiedRedirection (mk_url ''https:'' ''a.example'' [] ''/x'') (Some ''/next'') =
     ''https://a.example/next''
   \<and> visited idle (snd (settle sample_env sample_get_connection
        [Response (Some 301) [(''location'', ''/next'')]] idle)) =
       [Some (mk_url ''https:'' ''a.example'' [] ''/next'')]
   \<and> qualifiedRedirection (mk_url ''https:'' ''a.example'' [] ''/x'') (Some ''https://b.example/y'') =
     ''https://b.example/y''
   \<and> visited idle (snd (settle sample_env sample_get_connection
        [Response (Some 301) [(''location'', ''https://b.example/y'')]] idle)) =
       [Some (mk_url ''https:'' ''b.example'' [] ''/y'')]"
proof -
  have link: "conn_link sample_get_connection = Direct"
    and fol: "follows (conn_options sample_get_connection) (Some 301)"
    and uri: "uri (conn_options sample_get_connection) = mk_url ''https:'' ''a.example'' [] ''/x''"
    by (simp_all add: sample_get_connection_def redirect_connection_def redirect_descriptor_def
        follows_def)
  have q1: "qualifiedRedirection (mk_url ''https:'' ''a.example'' [] ''/x'') (Some ''/next'') =
     ''https://a.example/next''"
    and q2: "qualifiedRedirection (mk_url ''https:'' ''a.example'' [] ''/x'')
       (Some ''https://b.example/y'') = ''https://b.example/y''"
    by (simp_all add: qualifiedRedirection_def truthy_str_def startsWith_def origin_def host_def
        mk_url_def)
  have loc1: "parse_url sample_env
      (qualifiedRedirection (uri (conn_options sample_get_connection))
         (map_of [(''location'', ''/next'')] ''location'')) =
      Some (mk_url ''https:'' ''a.example'' [] ''/next'')"
    and loc2: "parse_url sample_env
      (qualifiedRedirection (uri (conn_options sample_get_connection))
         (map_of [(''location'', ''https://b.example/y'')] ''location'')) =
      Some (mk_url ''https:'' ''b.example'' [] ''/y'')"
    by (simp_all add: uri q1 q2 sample_parse)
  have lib: "httpLib (protocol (mk_url ''https:'' ''a.example'' [] ''/next'')) = Inr Https"
    "httpLib (protocol (mk_url ''https:'' ''b.example'' [] ''/y'')) = Inr Https"
    by (simp_all add: httpLib_def mk_url_def)
  from location_resolution [OF link fol loc1 lib(1), of idle]
    location_resolution [OF link fol loc2 lib(2), of idle] q1 q2
  show ?thesis by simp
qed

subsection \<open>No target URI (C9)\<close>

text \<open>
  Claim C9. When the first argument is an options object without \<open>uri\<close> (missing
  or \<open>undefined\<close>) and the second argument, if given, has none either, the entry
  point throws \<open>begger: uri must be defined\<close> and leaves the world as it was: no
  request is opened and no connection is handed out. The same holds for an entry point
  made by \<open>wrapWithDefaults\<close> (the verbs and \<open>request.defaults\<close>) whose defaults
  have no \<open>uri\<close>; such an entry point does not read its second argument when the first
  is an options object.
\<close>

theorem missing_uri_raises:
  assumes "get_field (o_uri ob) = None"
    and "case opts of None \<Rightarrow> True | Some p \<Rightarrow> get_field (o_uri p) = None"
    and "get_field (o_uri d) = None"
  shows "request_impl e (Opts ob) opts w = (Inl (Error ''begger: uri must be defined''), w)
         \<and> wrapWithDefaults (request_impl e) d (Opts ob) opts' w =
             (Inl (Error ''begger: uri must be defined''), w)"
proof -
  have "get_field (o_uri (spread (spread_opt opts) ob)) = None"
    using assms(1,2)
    by (cases opts) (simp_all add: spread_opt_def spread_no_options, simp_all add: spread_def
        no_options_def get_spread_none)
  moreover have "get_field (o_uri (spread (spread_opt None) (spread (spread no_options d) ob))) = None"
    using assms(1,3)
    by (simp add: spread_opt_def spread_no_options) (simp add: spread_def no_options_def
        get_spread_none)
  ultimately show ?thesis
    by (simp add: request_impl_def wrapWithDefaults_def sanitizeOpts_def sanitize_object_def)
qed

text \<open>
  An options object with headers only, alone and under defaults with headers only.
\<close>

theorem missing_uri_raises_witness:
  "request_impl sample_env (Opts sample_overrides) None idle =
     (Inl (Error ''begger: uri must be defined''), idle)
   \<and> wrapWithDefaults (request_impl sample_env) sample_defaults (Opts sample_overrides)
        (Some (no_options \<lparr> o_uri := Def (UriString ''http://x'') \<rparr>)) idle =
       (Inl (Error ''begger: uri must be defined''), idle)"
proof -
  have a: "get_field (o_uri sample_overrides) = None"
    and b: "case None :: Options option of None \<Rightarrow> True | Some p \<Rightarrow> get_field (o_uri p) = None"
    and c: "get_field (o_uri sample_defaults) = None"
    by (simp_all add: sample_overrides_def sample_defaults_def no_options_def)
  from missing_uri_raises [OF a b c] show ?thesis .
qed

subsection \<open>The request that follows a redirect (C10)\<close>

text \<open>
  Claim C10. When the \<open>response\<close> handler of a direct connection follows a
  redirect, the request it opens is a GET of the resolved location with the default
  \<open>User-Agent\<close> as its only header and with no auth, agent, TLS options, host, port
  or path of its own, and the connection it makes has the descriptor that
  \<open>sanitizeOpts\<close> builds from the location, the method \<open>get\<close> and the budget
  less one alone: no headers, auth, body, form, formData, qs, query, tls, agent or proxy.
  The body encoder ends it at once. Nothing of the original descriptor but the origin
  of its URI and its budget enters.
\<close>

theorem redirect_request_fresh:
  assumes "conn_link conn = Direct"
    and "follows (conn_options conn) sc"
    and "parse_url e (qualifiedRedirection (uri (conn_options conn)) (map_of hs ''location'')) = Some u"
    and "httpLib (protocol u) = Inr lib"
  shows "settle e conn [Response sc hs] w =
     (Pending,
      w \<lparr> requests := requests w @ [plain_get_request e lib u],
          connections := connections w
            @ [redirect_connection u (num_sub (maxRedirects (conn_options conn)) 1)] \<rparr>)"
  using settle_follow [OF assms, of "[]" w] by simp

text \<open>
  The sample connection is a POST with a header, auth and a body; the request that
  follows its redirect has none of them.
\<close>

theorem redirect_request_fresh_witness:
  "conn_link sample_connection = Direct
   \<and> follows (conn_options sample_connection) (Some 302)
   \<and> headers (conn_options sample_connection) = [(''X-Token'', HStr ''secret'')]
   \<and> body (conn_options sample_connection) = Some (AStr ''hello'')
   \<and> settle sample_env sample_connection [Response (Some 302) [(''location'', ''/one'')]]
        sample_world =
       (Pending,
        sample_world \<lparr> requests := requests sample_world @
            [\<lparr> via = Http, target = Some (mk_url ''http:'' ''a.example'' [] ''/one''),
               r_method = ''GET'',
               r_headers = [(''User-Agent'', HStr (defaultUserAgent sample_env))],
               r_auth = None, r_agent = None, r_host = None, r_port = None, r_path = None,
               r_tls = [], r_socket = OwnSocket \<rparr>],
          connections := connections sample_world @
            [\<lparr> conn_options =
                 \<lparr> method_name = ''get'', headers = [],
                   uri = mk_url ''http:'' ''a.example'' [] ''/one'', proxy = None,
                   maxRedirects = Fin 1, auth = None, body = None, form = None,
                   formData = None, qs = None, query = None, decompress = True,
                   rejectError = False, raw = False, tls = None, simple = False,
                   path = None, agent = None \<rparr>,
               conn_link = Direct, calls = [End None] \<rparr>] \<rparr>)"
proof -
  have link: "conn_link sample_connection = Direct"
    and fol: "follows (conn_options sample_connection) (Some 302)"
    by (simp_all add: sample_connection_def follows_def)
  have loc: "parse_url sample_env
      (qualifiedRedirection (uri (conn_options sample_connection))
         (map_of [(''location'', ''/one'')] ''location'')) =
      Some (mk_url ''http:'' ''a.example'' [] ''/one'')"
    by (simp add: sample_connection_def qualifiedRedirection_def truthy_str_def startsWith_def
        origin_def host_def mk_url_def sample_parse [unfolded mk_url_def])
  have lib: "httpLib (protocol (mk_url ''http:'' ''a.example'' [] ''/one'')) = Inr Http"
    by (simp add: httpLib_def mk_url_def)
  from redirect_request_fresh [OF link fol loc lib, of sample_world] link fol show ?thesis
    by (simp add: plain_get_request_def redirect_connection_def redirect_descriptor_def
        sample_connection_def)
qed

end
